theory Spec2Isabelle
  imports Complex_Main
begin

section \<open>The JavaScript values the program handles\<close>

text \<open>
  The program (\<^verbatim>\<open>src/main.ts\<close>) is a script of three awaited network calls. Its
  functions are embedded as HOL functions over an explicit description of the outside
  world (the clock, the process environment, the answers of the two remote services);
  every call that leaves the process is recorded in a trace of events, and every
  exception is a value of type \<open>js_error\<close>.

  Strings are byte strings: a \<open>string\<close> holds the UTF-8 encoding of the JavaScript
  string, which is what \<^verbatim>\<open>Buffer.from(text)\<close> produces.
\<close>

text \<open>
  A JavaScript \<^verbatim>\<open>number\<close>: a finite value, the two infinities, or NaN. A finite
  value is a real number and arithmetic on it is exact: the rounding of a result to the
  nearest double is not part of this model, and the two zeros are one.
\<close>

datatype jsnum = NaN | NegInf | PosInf | Fin real

text \<open>
  A value that came out of a JSON document. A number is any \<^verbatim>\<open>number\<close> (a literal
  beyond the range of a double is read as an infinity); the list of an object is the
  object's properties in the order in which JavaScript enumerates them.
\<close>

datatype json =
    JNull
  | JBool bool
  | JNum jsnum
  | JStr string
  | JArr "json list"
  | JObj "(string \<times> json) list"

text \<open>The relational operator \<^verbatim>\<open><\<close>: every comparison with NaN is false.\<close>

fun js_lt :: "jsnum \<Rightarrow> jsnum \<Rightarrow> bool" where
  "js_lt NaN _ = False"
| "js_lt _ NaN = False"
| "js_lt (Fin a) (Fin b) = (a < b)"
| "js_lt NegInf NegInf = False"
| "js_lt NegInf _ = True"
| "js_lt _ NegInf = False"
| "js_lt PosInf _ = False"
| "js_lt _ PosInf = True"

text \<open>The operator \<^verbatim>\<open>>=\<close> of JavaScript, used to state the other side of the threshold check.\<close>

fun js_ge :: "jsnum \<Rightarrow> jsnum \<Rightarrow> bool" where
  "js_ge NaN _ = False"
| "js_ge _ NaN = False"
| "js_ge (Fin a) (Fin b) = (a \<ge> b)"
| "js_ge PosInf _ = True"
| "js_ge _ NegInf = True"
| "js_ge NegInf _ = False"
| "js_ge _ PosInf = False"

text \<open>The operator \<^verbatim>\<open>-\<close> on numbers.\<close>

fun js_sub :: "jsnum \<Rightarrow> jsnum \<Rightarrow> jsnum" where
  "js_sub NaN _ = NaN"
| "js_sub _ NaN = NaN"
| "js_sub (Fin a) (Fin b) = Fin (a - b)"
| "js_sub PosInf PosInf = NaN"
| "js_sub NegInf NegInf = NaN"
| "js_sub PosInf _ = PosInf"
| "js_sub NegInf _ = NegInf"
| "js_sub (Fin a) PosInf = NegInf"
| "js_sub (Fin a) NegInf = PosInf"

text \<open>
  The operator \<^verbatim>\<open>/\<close> with a finite, positive divisor (the program divides by 1000).
  The quotient is the exact one; the code has its nearest double, which compares with a
  threshold in the same way whenever the threshold is a whole number of seconds, as the
  default is.
\<close>

fun js_div_pos :: "jsnum \<Rightarrow> real \<Rightarrow> jsnum" where
  "js_div_pos NaN d = NaN"
| "js_div_pos PosInf d = PosInf"
| "js_div_pos NegInf d = NegInf"
| "js_div_pos (Fin a) d = Fin (a / d)"

text \<open>
  A \<^verbatim>\<open>Date\<close> object: its time value is a whole number of milliseconds since the epoch,
  or NaN (an "Invalid Date").
\<close>

datatype jsdate = InvalidDate | ValidDate int

fun getTime :: "jsdate \<Rightarrow> jsnum" where
  "getTime InvalidDate = NaN"
| "getTime (ValidDate t) = Fin (of_int t)"

text \<open>
  \<^verbatim>\<open>TimeClip\<close>: a time value that is not finite, or beyond 8.64e15 ms in magnitude, is
  NaN; any other is cut to a whole number, towards zero.
\<close>

definition TimeClip :: "jsnum \<Rightarrow> jsdate" where
  "TimeClip t =
     (case t of
        Fin r \<Rightarrow>
          if \<bar>r\<bar> \<le> 8640000000000000
          then ValidDate (if r < 0 then \<lceil>r\<rceil> else \<lfloor>r\<rfloor>)
          else InvalidDate
      | _ \<Rightarrow> InvalidDate)"

text \<open>
  \<^verbatim>\<open>Number::toString\<close>: the text of a finite number (\<^verbatim>\<open>1\<close>, \<^verbatim>\<open>1.5\<close>, \<^verbatim>\<open>1e+21\<close>) is the
  runtime's, the parameter \<open>number_text\<close>; the other three have fixed names.
\<close>

fun Number_toString :: "(real \<Rightarrow> string) \<Rightarrow> jsnum \<Rightarrow> string" where
  "Number_toString number_text NaN = ''NaN''"
| "Number_toString number_text PosInf = ''Infinity''"
| "Number_toString number_text NegInf = ''-Infinity''"
| "Number_toString number_text (Fin r) = number_text r"

text \<open>\<^verbatim>\<open>Array.prototype.join\<close> on strings that are already converted.\<close>

fun join_strings :: "string \<Rightarrow> string list \<Rightarrow> string" where
  "join_strings sep [] = []"
| "join_strings sep [s] = s"
| "join_strings sep (s # t # ss) = s @ sep @ join_strings sep (t # ss)"

text \<open>
  \<^verbatim>\<open>ToString\<close> of a JSON value: an array is its elements joined by commas (with null
  as the empty string), a plain object is the text \<^verbatim>\<open>[object Object]\<close>.
\<close>

fun js_ToString :: "(real \<Rightarrow> string) \<Rightarrow> json \<Rightarrow> string" where
  "js_ToString number_text JNull = ''null''"
| "js_ToString number_text (JBool b) = (if b then ''true'' else ''false'')"
| "js_ToString number_text (JNum n) = Number_toString number_text n"
| "js_ToString number_text (JStr s) = s"
| "js_ToString number_text (JArr xs) =
     join_strings '','' (map (\<lambda>x. if x = JNull then [] else js_ToString number_text x) xs)"
| "js_ToString number_text (JObj kvs) = ''[object Object]''"

text \<open>
  \<^verbatim>\<open>new Date(value)\<close> for a value read out of a record; \<open>None\<close> is \<^verbatim>\<open>undefined\<close> (the
  record has no such field). A string is parsed by the runtime's \<^verbatim>\<open>Date.parse\<close>, which
  is the parameter \<open>parse\<close> (\<open>None\<close> when the text is not a date-time); an array or an
  object is first converted to a string; null, a boolean and a number are converted to a
  number (0 for null and false, 1 for true) and clipped.
\<close>

definition date_of_parse :: "int option \<Rightarrow> jsdate" where
  "date_of_parse r = (case r of None \<Rightarrow> InvalidDate | Some t \<Rightarrow> ValidDate t)"

fun new_Date :: "(string \<Rightarrow> int option) \<Rightarrow> (real \<Rightarrow> string) \<Rightarrow> json option \<Rightarrow> jsdate" where
  "new_Date parse number_text None = InvalidDate"
| "new_Date parse number_text (Some (JStr s)) = date_of_parse (parse s)"
| "new_Date parse number_text (Some (JArr xs)) =
     date_of_parse (parse (js_ToString number_text (JArr xs)))"
| "new_Date parse number_text (Some (JObj kvs)) =
     date_of_parse (parse (js_ToString number_text (JObj kvs)))"
| "new_Date parse number_text (Some JNull) = TimeClip (Fin 0)"
| "new_Date parse number_text (Some (JBool b)) = TimeClip (Fin (if b then 1 else 0))"
| "new_Date parse number_text (Some (JNum n)) = TimeClip n"

text \<open>Property access \<^verbatim>\<open>obj[key]\<close> on a field mapping: the first entry with that key.\<close>

fun lookup :: "(string \<times> 'v) list \<Rightarrow> string \<Rightarrow> 'v option" where
  "lookup [] k = None"
| "lookup ((k', v) # kvs) k = (if k' = k then Some v else lookup kvs k)"

section \<open>Errors, events and the outside world\<close>

text \<open>
  What the program can throw: a thrown string (\<^verbatim>\<open>envOrDie\<close>), a rejected request of one
  of the client libraries, or the runtime's TypeError.
\<close>

datatype js_error =
    ThrownString string
  | RequestFailed string
  | TypeError

text \<open>
  The texts the program writes to the console. The first carries the threshold that the
  source interpolates into
  \<^verbatim>\<open>Last update below update treshold (${timeTreshold} seconds), skipping update.\<close>;
  the other two are
  \<^verbatim>\<open>Last update time over update treshold, will try to export data.\<close> and
  \<^verbatim>\<open>Unable to determine last table update time, no changes done.\<close>
\<close>

datatype console_text =
    BelowThreshold jsnum
  | OverThreshold
  | NoUpdateTime

subsection \<open>Configuration\<close>

record AirtableConfig =
  apiKey :: string
  databaseId :: string
  tableName :: string
  lastModifiedField :: string

record GitHubConfig =
  apiKey :: string
  user :: string
  repo :: string
  path :: string
  message :: string

subsection \<open>The table store\<close>

text \<open>A record of the table store: its identifier and its field mapping (\<^verbatim>\<open>fields\<close> in the client library).\<close>

record airtable_record =
  rec_id :: string
  rec_fields :: "(string \<times> json) list"

text \<open>
  The handle \<^verbatim>\<open>new Airtable({ apiKey }).base(databaseId)(tableName)\<close>: it only holds
  what it was built from.
\<close>

record airtable_table =
  t_apiKey :: string
  t_baseId :: string
  t_name :: string

datatype direction = Asc | Desc

text \<open>The parameters of \<^verbatim>\<open>table.select\<close>; \<^verbatim>\<open>table.select()\<close> sets none of them.\<close>

record select_params =
  sel_fields :: "string list option"
  sel_sort :: "(string \<times> direction) list"
  sel_maxRecords :: "nat option"

definition select_everything :: select_params where
  "select_everything = \<lparr>sel_fields = None, sel_sort = [], sel_maxRecords = None\<rparr>"

text \<open>
  Modelled from the spec: the table store's answer to a query is not code of this
  repository. The spec gives it as "field projection, single-field descending sort, and
  result-count limiting": the records are sorted on the named field (by a rank of the
  store's own, \<open>rank\<close>, also given to a record without the field), cut to the field list,
  and limited in number.
\<close>

definition sort_records :: "(json option \<Rightarrow> int) \<Rightarrow> string \<times> direction \<Rightarrow> airtable_record list \<Rightarrow> airtable_record list" where
  "sort_records rank s recs =
     (case s of
        (f, Asc) \<Rightarrow> sort_key (\<lambda>r. rank (lookup (rec_fields r) f)) recs
      | (f, Desc) \<Rightarrow> rev (sort_key (\<lambda>r. rank (lookup (rec_fields r) f)) recs))"

definition project_record :: "string list option \<Rightarrow> airtable_record \<Rightarrow> airtable_record" where
  "project_record fs r =
     (case fs of
        None \<Rightarrow> r
      | Some names \<Rightarrow> r\<lparr>rec_fields := filter (\<lambda>kv. fst kv \<in> set names) (rec_fields r)\<rparr>)"

definition limit_records :: "nat option \<Rightarrow> airtable_record list \<Rightarrow> airtable_record list" where
  "limit_records n recs = (case n of None \<Rightarrow> recs | Some k \<Rightarrow> take k recs)"

definition airtable_select :: "(json option \<Rightarrow> int) \<Rightarrow> select_params \<Rightarrow> airtable_record list \<Rightarrow> airtable_record list" where
  "airtable_select rank q recs =
     limit_records (sel_maxRecords q)
       (map (project_record (sel_fields q))
          (foldr (sort_records rank) (sel_sort q) recs))"

subsection \<open>The file host\<close>

text \<open>The argument of \<^verbatim>\<open>octokit.repos.createOrUpdateFileContents\<close>.\<close>

record put_params =
  put_owner :: string
  put_repo :: string
  put_path :: string
  put_message :: string
  put_sha :: "json option"
  put_content :: string

subsection \<open>The world and the trace\<close>

text \<open>
  One run sees: the clock at \<^verbatim>\<open>new Date()\<close>; the runtime's \<^verbatim>\<open>Date.parse\<close> and its
  conversion of a finite number to text; the process environment (its variables only:
  a key is never found among inherited properties); the table store when the freshness query arrives and when the full read
  arrives (for each handle, a failure or the table's records); the answer to a GET of a
  URL (a failure or the decoded JSON body); the answer of the file host to a write made
  with a given token.
\<close>

record world =
  clock :: int
  Date_parse :: "string \<Rightarrow> int option"
  number_text :: "real \<Rightarrow> string"
  process_env :: "string \<Rightarrow> string option"
  table_at_check :: "airtable_table \<Rightarrow> js_error + airtable_record list"
  table_at_export :: "airtable_table \<Rightarrow> js_error + airtable_record list"
  store_rank :: "json option \<Rightarrow> int"
  axios_get :: "string \<Rightarrow> js_error + json"
  octokit_put :: "string \<Rightarrow> put_params \<Rightarrow> js_error + unit"

text \<open>
  What leaves the process, in order. An event is one call of a client library
  (\<^verbatim>\<open>query.all()\<close>, \<^verbatim>\<open>axios.get\<close>, \<^verbatim>\<open>createOrUpdateFileContents\<close>) or of the console;
  how many requests a library sends for one call (the pages of \<^verbatim>\<open>all()\<close>) and what
  it checks before sending are its own, as is everything else inside it.
\<close>

datatype event =
    AirtableQuery airtable_table select_params
  | HttpGet string
  | GitHubPut string put_params
  | ConsoleInfo console_text
  | ConsoleWarn console_text
  | ConsoleError js_error

text \<open>
  An awaited computation: the events it caused, and either the exception that rejected
  it or its result.
\<close>

type_synonym 'a io = "event list \<times> (js_error + 'a)"

definition await :: "'a io \<Rightarrow> ('a \<Rightarrow> 'b io) \<Rightarrow> 'b io" where
  "await m f =
     (case m of
        (tr, Inl e) \<Rightarrow> (tr, Inl e)
      | (tr, Inr x) \<Rightarrow> (case f x of (tr', r) \<Rightarrow> (tr @ tr', r)))"

text \<open>\<^verbatim>\<open>query.all()\<close>: one request to the table store, answered from the given state.\<close>

definition query_all ::
  "(airtable_table \<Rightarrow> js_error + airtable_record list) \<Rightarrow> (json option \<Rightarrow> int) \<Rightarrow>
   airtable_table \<Rightarrow> select_params \<Rightarrow> airtable_record list io" where
  "query_all store rank table q =
     ([AirtableQuery table q],
      case store table of
        Inl e \<Rightarrow> Inl e
      | Inr recs \<Rightarrow> Inr (airtable_select rank q recs))"

section \<open>Airtable support\<close>

text \<open>
  The query of \<^verbatim>\<open>getLastAirtableModificationTime\<close>: only the time stamp field, the
  latest first, one record.
\<close>

definition freshness_query :: "string \<Rightarrow> select_params" where
  "freshness_query lastModifiedField' =
     \<lparr>sel_fields = Some [lastModifiedField'],
      sel_sort = [(lastModifiedField', Desc)],
      sel_maxRecords = Some 1\<rparr>"

definition getLastAirtableModificationTime :: "world \<Rightarrow> airtable_table \<Rightarrow> string \<Rightarrow> jsdate option io" where
  "getLastAirtableModificationTime w table lastModifiedField' =
     (let query = freshness_query lastModifiedField'
      in await (query_all (table_at_check w) (store_rank w) table query) (\<lambda>matches.
           case matches of
             mostRecentRecord # _ \<Rightarrow>
               (let stamp = lookup (rec_fields mostRecentRecord) lastModifiedField'
                in ([], Inr (Some (new_Date (Date_parse w) (number_text w) stamp))))
           | [] \<Rightarrow> ([], Inr None)))"

section \<open>GitHub support\<close>

text \<open>
  \<^verbatim>\<open>response.data["sha"]\<close>: reading a property of null throws a TypeError, an object
  gives the property or undefined, every other JSON value gives undefined.
\<close>

fun get_property :: "json \<Rightarrow> string \<Rightarrow> js_error + json option" where
  "get_property JNull k = Inl TypeError"
| "get_property (JObj kvs) k = Inr (lookup kvs k)"
| "get_property _ k = Inr None"

definition target_url :: "GitHubConfig \<Rightarrow> string" where
  "target_url config =
     ''https://api.github.com/repos/'' @ user config @ ''/'' @ repo config
       @ ''/contents/'' @ path config"

definition getTargetFileSHA :: "world \<Rightarrow> GitHubConfig \<Rightarrow> json option io" where
  "getTargetFileSHA w config =
     (let url = target_url config
      in await ([HttpGet url], axios_get w url) (\<lambda>response_data.
           ([], get_property response_data ''sha'')))"

section \<open>Utils\<close>

subsection \<open>\<^verbatim>\<open>JSON.stringify\<close>\<close>

definition hex_char :: "nat \<Rightarrow> char" where
  "hex_char d = (if d < 10 then char_of (48 + d) else char_of (87 + d))"

text \<open>
  \<^verbatim>\<open>QuoteJSONString\<close>: the double quote and the backslash are escaped, the control
  characters below U+0020 are written with their short escape or as \<^verbatim>\<open>\u00xx\<close>, every
  other byte stands for itself.
\<close>

definition escape_char :: "char \<Rightarrow> string" where
  "escape_char c =
     (if c = CHR 0x22 then [CHR 0x5C, CHR 0x22]
      else if c = CHR 0x5C then [CHR 0x5C, CHR 0x5C]
      else if c = CHR 0x08 then [CHR 0x5C, CHR ''b'']
      else if c = CHR 0x09 then [CHR 0x5C, CHR ''t'']
      else if c = CHR 0x0A then [CHR 0x5C, CHR ''n'']
      else if c = CHR 0x0C then [CHR 0x5C, CHR ''f'']
      else if c = CHR 0x0D then [CHR 0x5C, CHR ''r'']
      else if (of_char c :: nat) < 32
        then [CHR 0x5C, CHR ''u'', CHR ''0'', CHR ''0'',
              hex_char (of_char c div 16), hex_char (of_char c mod 16)]
      else [c])"

definition QuoteJSONString :: "string \<Rightarrow> string" where
  "QuoteJSONString s = [CHR 0x22] @ concat (map escape_char s) @ [CHR 0x22]"

text \<open>
  \<^verbatim>\<open>SerializeJSONProperty\<close> with its two parameters, the gap and the current
  indentation, and the runtime's text of a finite number, \<open>nt\<close>; a number that is not
  finite is written \<^verbatim>\<open>null\<close>. With an empty gap the text has no line breaks; otherwise every element
  and member starts a line of its own, indented by one gap more than its parent.
\<close>

fun SerializeJSON :: "(real \<Rightarrow> string) \<Rightarrow> string \<Rightarrow> string \<Rightarrow> json \<Rightarrow> string" where
  "SerializeJSON nt gap indent JNull = ''null''"
| "SerializeJSON nt gap indent (JBool b) = (if b then ''true'' else ''false'')"
| "SerializeJSON nt gap indent (JNum n) =
     (case n of Fin r \<Rightarrow> Number_toString nt (Fin r) | _ \<Rightarrow> ''null'')"
| "SerializeJSON nt gap indent (JStr s) = QuoteJSONString s"
| "SerializeJSON nt gap indent (JArr xs) =
     (let stepback = indent; indent' = indent @ gap;
          partial = map (SerializeJSON nt gap indent') xs
      in if partial = [] then ''[]''
         else if gap = [] then ''['' @ join_strings '','' partial @ '']''
         else ''['' @ [CHR 0x0A] @ indent' @ join_strings ('','' @ [CHR 0x0A] @ indent') partial
                @ [CHR 0x0A] @ stepback @ '']'')"
| "SerializeJSON nt gap indent (JObj kvs) =
     (let stepback = indent; indent' = indent @ gap;
          partial = map (\<lambda>(k, v). QuoteJSONString k @ '':'' @ (if gap = [] then [] else '' '')
                                   @ SerializeJSON nt gap indent' v) kvs
      in if partial = [] then ''{}''
         else if gap = [] then ''{'' @ join_strings '','' partial @ ''}''
         else ''{'' @ [CHR 0x0A] @ indent' @ join_strings ('','' @ [CHR 0x0A] @ indent') partial
                @ [CHR 0x0A] @ stepback @ ''}'')"

text \<open>\<^verbatim>\<open>JSON.stringify(value, null, space)\<close> with a number for \<^verbatim>\<open>space\<close>: at most ten spaces.\<close>

definition JSON_stringify :: "(real \<Rightarrow> string) \<Rightarrow> json \<Rightarrow> nat \<Rightarrow> string" where
  "JSON_stringify nt v space = SerializeJSON nt (replicate (min 10 space) CHR '' '') [] v"

text \<open>Convert data to a JSON string.\<close>

definition toJSON :: "world \<Rightarrow> json \<Rightarrow> string" where
  "toJSON w data = JSON_stringify (number_text w) data 2"

subsection \<open>Base64\<close>

definition base64_alphabet :: string where
  "base64_alphabet = ''ABCDEFGHIJKLMNOPQRSTUVWXYZabcdefghijklmnopqrstuvwxyz0123456789+/''"

definition sextet_char :: "nat \<Rightarrow> char" where
  "sextet_char i = base64_alphabet ! (i mod 64)"

text \<open>
  \<^verbatim>\<open>buffer.toString("base64")\<close>: three bytes become four characters of the alphabet; a
  last group of one or two bytes is padded with \<^verbatim>\<open>=\<close>.
\<close>

fun base64_encode :: "string \<Rightarrow> string" where
  "base64_encode [] = []"
| "base64_encode [a] =
     (let x = (of_char a :: nat)
      in [sextet_char (x div 4), sextet_char ((x mod 4) * 16), CHR ''='', CHR ''=''])"
| "base64_encode [a, b] =
     (let x = (of_char a :: nat); y = (of_char b :: nat)
      in [sextet_char (x div 4), sextet_char ((x mod 4) * 16 + y div 16),
          sextet_char ((y mod 16) * 4), CHR ''=''])"
| "base64_encode (a # b # c # rest) =
     (let x = (of_char a :: nat); y = (of_char b :: nat); z = (of_char c :: nat)
      in [sextet_char (x div 4), sextet_char ((x mod 4) * 16 + y div 16),
          sextet_char ((y mod 16) * 4 + z div 64), sextet_char (z mod 64)]
         @ base64_encode rest)"

text \<open>
  Convert data to a Base64 encoded string. \<^verbatim>\<open>Buffer.from(data)\<close> is the UTF-8 encoding
  of the string \<^verbatim>\<open>data\<close>, which a \<open>string\<close> here already is.
\<close>

definition toBase64 :: "string \<Rightarrow> string" where
  "toBase64 data = base64_encode data"

text \<open>
  The reader's side, \<^verbatim>\<open>Buffer.from(text, "base64").toString()\<close>: not part of the
  program, it is what a consumer of the uploaded content applies to it. Four characters
  give three bytes, and a padded group ends the text.
\<close>

fun index_of :: "'a \<Rightarrow> 'a list \<Rightarrow> nat" where
  "index_of x [] = 0"
| "index_of x (y # ys) = (if x = y then 0 else Suc (index_of x ys))"

definition char_sextet :: "char \<Rightarrow> nat" where
  "char_sextet c = index_of c base64_alphabet"

fun base64_decode :: "string \<Rightarrow> string" where
  "base64_decode (c0 # c1 # c2 # c3 # rest) =
     (let d0 = char_sextet c0; d1 = char_sextet c1; d2 = char_sextet c2; d3 = char_sextet c3
      in if c2 = CHR ''='' then [char_of (d0 * 4 + d1 div 16)]
         else if c3 = CHR ''='' then [char_of (d0 * 4 + d1 div 16), char_of ((d1 mod 16) * 16 + d2 div 4)]
         else char_of (d0 * 4 + d1 div 16) # char_of ((d1 mod 16) * 16 + d2 div 4)
              # char_of ((d2 mod 4) * 64 + d3) # base64_decode rest)"
| "base64_decode _ = []"

subsection \<open>The environment\<close>

text \<open>
  \<^verbatim>\<open>val == null\<close> holds for an unset variable only (\<^verbatim>\<open>process.env[key]\<close> is then
  undefined); the thrown value is a string. The keys that \<^verbatim>\<open>main\<close> passes are names of
  variables; a key that names an inherited property of the environment object is outside
  this model.
\<close>

definition envOrDie :: "world \<Rightarrow> string \<Rightarrow> js_error + string" where
  "envOrDie w key =
     (case process_env w key of
        None \<Rightarrow> Inl (ThrownString (''Please define the '' @ key @ '' env variable.''))
      | Some val \<Rightarrow> Inr val)"

section \<open>High-level interface\<close>

text \<open>
  The table handle built at the start of \<^verbatim>\<open>exportAirtableDataToGitHub\<close>. Building it
  sends nothing. The client library is not part of the program, and a refusal of its own
  to build a handle (it throws on an empty key) is not modelled: what is stated below
  about a run whose freshness query was answered is about a run whose handle was built.
\<close>

definition table_of :: "AirtableConfig \<Rightarrow> airtable_table" where
  "table_of airtableConfig =
     \<lparr>t_apiKey = AirtableConfig.apiKey airtableConfig,
      t_baseId = databaseId airtableConfig,
      t_name = tableName airtableConfig\<rparr>"

text \<open>
  The export itself, the part of \<^verbatim>\<open>exportAirtableDataToGitHub\<close> after the threshold
  check: log, read all records, read the hash of the target file, encode, write.
\<close>

definition export_step :: "world \<Rightarrow> airtable_table \<Rightarrow> GitHubConfig \<Rightarrow> unit io" where
  "export_step w table githubConfig =
     await ([ConsoleInfo OverThreshold], Inr ()) (\<lambda>_.
     await (query_all (table_at_export w) (store_rank w) table select_everything) (\<lambda>matches.
     await (getTargetFileSHA w githubConfig) (\<lambda>currentSHA.
       (let uploadData = toBase64 (toJSON w (JArr (map (\<lambda>m. JObj (rec_fields m)) matches)));
            auth = GitHubConfig.apiKey githubConfig;
            request = \<lparr>put_owner = user githubConfig,
                       put_repo = repo githubConfig,
                       put_path = path githubConfig,
                       put_message = message githubConfig,
                       put_sha = currentSHA,
                       put_content = uploadData\<rparr>
        in ([GitHubPut auth request], octokit_put w auth request)))))"

text \<open>
  The seconds between the last update and now,
  \<^verbatim>\<open>(now.getTime() - lastUpdate.getTime()) / 1000\<close>.
\<close>

definition timeSinceLastUpdate :: "world \<Rightarrow> jsdate \<Rightarrow> jsnum" where
  "timeSinceLastUpdate w lastUpdate =
     (let now = ValidDate (clock w)
      in js_div_pos (js_sub (getTime now) (getTime lastUpdate)) 1000)"

text \<open>
  The third argument is optional: \<open>None\<close> is a call without it, and the parameter
  \<^verbatim>\<open>timeTreshold\<close> then takes its default, \<^verbatim>\<open>5 * 60\<close>.
\<close>

definition timeTreshold_of :: "jsnum option \<Rightarrow> jsnum" where
  "timeTreshold_of arg = (case arg of None \<Rightarrow> Fin (5 * 60) | Some t \<Rightarrow> t)"

definition exportAirtableDataToGitHub ::
  "world \<Rightarrow> AirtableConfig \<Rightarrow> GitHubConfig \<Rightarrow> jsnum option \<Rightarrow> unit io" where
  "exportAirtableDataToGitHub w airtableConfig githubConfig timeTreshold_arg =
     (let timeTreshold = timeTreshold_of timeTreshold_arg;
          table = table_of airtableConfig
      in await (getLastAirtableModificationTime w table (lastModifiedField airtableConfig))
           (\<lambda>lastUpdate.
              case lastUpdate of
                Some lastUpdate' \<Rightarrow>
                  if js_lt (timeSinceLastUpdate w lastUpdate') timeTreshold
                  then ([ConsoleInfo (BelowThreshold timeTreshold)], Inr ())
                  else export_step w table githubConfig
              | None \<Rightarrow> ([ConsoleWarn NoUpdateTime], Inr ())))"

section \<open>Entry point\<close>

definition main :: "world \<Rightarrow> unit io" where
  "main w =
     await ([], envOrDie w ''AIRTABLE_API_KEY'') (\<lambda>airtableKey.
       (let airtableConfig = \<lparr>AirtableConfig.apiKey = airtableKey,
                               databaseId = ''apppZX1QC3fl1RTBM'',
                               tableName = ''Web Export Test'',
                               lastModifiedField = ''Last Update''\<rparr>
        in await ([], envOrDie w ''GITHUB_API_TOKEN'') (\<lambda>githubKey.
             (let githubConfig = \<lparr>GitHubConfig.apiKey = githubKey,
                                   user = ''zoul'',
                                   repo = ''airtable-export'',
                                   path = ''data.json'',
                                   message = ''Update data''\<rparr>
              in exportAirtableDataToGitHub w airtableConfig githubConfig None))))"

text \<open>\<^verbatim>\<open>main().catch((e) => console.error(e))\<close>: what the whole run sends out.\<close>

definition run_main :: "world \<Rightarrow> event list" where
  "run_main w =
     (case main w of
        (tr, Inl e) \<Rightarrow> tr @ [ConsoleError e]
      | (tr, Inr _) \<Rightarrow> tr)"

text \<open>The calls that leave the process for one of the two remote services.\<close>

fun is_network_call :: "event \<Rightarrow> bool" where
  "is_network_call (AirtableQuery t q) = True"
| "is_network_call (HttpGet url) = True"
| "is_network_call (GitHubPut auth request) = True"
| "is_network_call _ = False"

fun is_write :: "event \<Rightarrow> bool" where
  "is_write (GitHubPut auth request) = True"
| "is_write _ = False"

text \<open>The configurations that \<^verbatim>\<open>main\<close> builds, as functions of the credential.\<close>

definition main_airtableConfig :: "string \<Rightarrow> AirtableConfig" where
  "main_airtableConfig key =
     \<lparr>AirtableConfig.apiKey = key, databaseId = ''apppZX1QC3fl1RTBM'',
      tableName = ''Web Export Test'', lastModifiedField = ''Last Update''\<rparr>"

definition main_githubConfig :: "string \<Rightarrow> GitHubConfig" where
  "main_githubConfig key =
     \<lparr>GitHubConfig.apiKey = key, user = ''zoul'', repo = ''airtable-export'',
      path = ''data.json'', message = ''Update data''\<rparr>"

section \<open>Example runs\<close>

text \<open>
  Concrete worlds on which the theorems below are instantiated. The only date-time text
  the example runtime parses is midnight of 1 January 2020 (1577836800000 ms); the
  example store ranks a record by that time.
\<close>

text \<open>
  The example runtime writes a whole number below 10^21 in magnitude with its decimal
  digits, as every runtime does. The examples hold no other number; on those the
  example conversion is left empty.
\<close>

definition digit_char :: "nat \<Rightarrow> char" where
  "digit_char d = char_of (48 + d)"

fun nat_digits :: "nat \<Rightarrow> string" where
  "nat_digits n = (if n < 10 then [digit_char n] else nat_digits (n div 10) @ [digit_char (n mod 10)])"

declare nat_digits.simps [simp del]

definition int_to_string :: "int \<Rightarrow> string" where
  "int_to_string i = (if i < 0 then CHR ''-'' # nat_digits (nat (- i)) else nat_digits (nat i))"

definition example_number_text :: "real \<Rightarrow> string" where
  "example_number_text r =
     (if r = of_int \<lfloor>r\<rfloor> \<and> \<bar>r\<bar> < 10 ^ 21 then int_to_string \<lfloor>r\<rfloor> else [])"

definition example_parse :: "string \<Rightarrow> int option" where
  "example_parse s = (if s = ''2020-01-01T00:00:00.000Z'' then Some 1577836800000 else None)"

definition example_rank :: "json option \<Rightarrow> int" where
  "example_rank v =
     (case v of
        Some (JStr s) \<Rightarrow> (case example_parse s of Some t \<Rightarrow> t | None \<Rightarrow> 0)
      | _ \<Rightarrow> 0)"

definition example_world ::
  "int \<Rightarrow> (string \<Rightarrow> string option) \<Rightarrow> airtable_record list \<Rightarrow> airtable_record list \<Rightarrow>
   (js_error + json) \<Rightarrow> world" where
  "example_world now env at_check at_export answer =
     \<lparr>clock = now,
      Date_parse = example_parse,
      number_text = example_number_text,
      process_env = env,
      table_at_check = (\<lambda>t. Inr at_check),
      table_at_export = (\<lambda>t. Inr at_export),
      store_rank = example_rank,
      axios_get = (\<lambda>url. answer),
      octokit_put = (\<lambda>auth request. Inr ())\<rparr>"

definition example_env :: "string \<Rightarrow> string option" where
  "example_env key =
     (if key = ''AIRTABLE_API_KEY'' then Some ''keyA''
      else if key = ''GITHUB_API_TOKEN'' then Some ''tokenG''
      else None)"

text \<open>An environment whose file host token is set, to the empty string.\<close>

definition blank_token_env :: "string \<Rightarrow> string option" where
  "blank_token_env key =
     (if key = ''AIRTABLE_API_KEY'' then Some ''keyA''
      else if key = ''GITHUB_API_TOKEN'' then Some []
      else None)"

definition airtable_only_env :: "string \<Rightarrow> string option" where
  "airtable_only_env key = (if key = ''AIRTABLE_API_KEY'' then Some ''keyA'' else None)"

definition example_airtableConfig :: AirtableConfig where
  "example_airtableConfig =
     \<lparr>AirtableConfig.apiKey = ''keyA'', databaseId = ''apppZX1QC3fl1RTBM'',
      tableName = ''Web Export Test'', lastModifiedField = ''Last Update''\<rparr>"

definition example_githubConfig :: GitHubConfig where
  "example_githubConfig =
     \<lparr>GitHubConfig.apiKey = ''tokenG'', user = ''zoul'', repo = ''airtable-export'',
      path = ''data.json'', message = ''Update data''\<rparr>"

definition stamped_records :: "airtable_record list" where
  "stamped_records =
     [\<lparr>rec_id = ''rec1'', rec_fields = [(''Last Update'', JStr ''2020-01-01T00:00:00.000Z'')]\<rparr>]"

definition unparsable_records :: "airtable_record list" where
  "unparsable_records =
     [\<lparr>rec_id = ''rec1'', rec_fields = [(''Last Update'', JStr ''yesterday'')]\<rparr>]"

text \<open>The records \<^verbatim>\<open>[{"A":1},{"B":2}]\<close>, with their identifiers.\<close>

definition AB_records :: "airtable_record list" where
  "AB_records =
     [\<lparr>rec_id = ''rec1'', rec_fields = [(''A'', JNum (Fin 1))]\<rparr>,
      \<lparr>rec_id = ''rec2'', rec_fields = [(''B'', JNum (Fin 2))]\<rparr>]"

text \<open>
  The text \<^verbatim>\<open>JSON.stringify([{"A":1},{"B":2}], null, 2)\<close>, line by line, and the write
  request that carries it.
\<close>

definition AB_text :: string where
  "AB_text =
     ''['' @ [CHR 0x0A]
     @ ''  {'' @ [CHR 0x0A]
     @ ''    '' @ [CHR 0x22] @ ''A'' @ [CHR 0x22] @ '': 1'' @ [CHR 0x0A]
     @ ''  },'' @ [CHR 0x0A]
     @ ''  {'' @ [CHR 0x0A]
     @ ''    '' @ [CHR 0x22] @ ''B'' @ [CHR 0x22] @ '': 2'' @ [CHR 0x0A]
     @ ''  }'' @ [CHR 0x0A]
     @ '']''"

definition AB_request :: put_params where
  "AB_request =
     \<lparr>put_owner = ''zoul'', put_repo = ''airtable-export'', put_path = ''data.json'',
      put_message = ''Update data'', put_sha = Some (JStr ''3b18e512''),
      put_content = ''WwogIHsKICAgICJBIjogMQogIH0sCiAgewogICAgIkIiOiAyCiAgfQpd''\<rparr>"

definition sha_answer :: "js_error + json" where
  "sha_answer = Inr (JObj [(''name'', JStr ''data.json''), (''sha'', JStr ''3b18e512'')])"

definition not_found_answer :: "js_error + json" where
  "not_found_answer = Inl (RequestFailed ''Request failed with status code 404'')"

section \<open>Auxiliary facts\<close>

subsection \<open>Base64 decoding inverts encoding\<close>

lemma index_of_nth: "distinct xs \<Longrightarrow> i < length xs \<Longrightarrow> index_of (xs ! i) xs = i"
proof (induction xs arbitrary: i)
  case Nil
  then show ?case by simp
next
  case (Cons x xs)
  then show ?case by (cases i) auto
qed

lemma distinct_alphabet: "distinct base64_alphabet"
  by (simp add: base64_alphabet_def)

lemma length_alphabet: "length base64_alphabet = 64"
  by (simp add: base64_alphabet_def)

lemma char_sextet_char: "i < 64 \<Longrightarrow> char_sextet (sextet_char i) = i"
  by (simp add: char_sextet_def sextet_char_def index_of_nth distinct_alphabet length_alphabet)

lemma pad_not_in_alphabet: "CHR ''='' \<notin> set base64_alphabet"
  by (simp add: base64_alphabet_def)

lemma sextet_char_not_pad: "sextet_char i \<noteq> CHR ''=''"
proof -
  have "sextet_char i \<in> set base64_alphabet"
    by (simp add: sextet_char_def length_alphabet)
  with pad_not_in_alphabet show ?thesis by metis
qed

lemma byte_of_sextets_1:
  fixes x y :: nat
  assumes "y < 256"
  shows "(x div 4) * 4 + ((x mod 4) * 16 + y div 16) div 16 = x"
proof -
  have "y div 16 < 16" using assms by simp
  then have "((x mod 4) * 16 + y div 16) div 16 = x mod 4" by simp
  then show ?thesis by simp
qed

lemma byte_of_sextets_2:
  fixes x y z :: nat
  assumes "y < 256" "z < 256"
  shows "(((x mod 4) * 16 + y div 16) mod 16) * 16 + ((y mod 16) * 4 + z div 64) div 4 = y"
proof -
  have a: "y div 16 < 16" using assms by simp
  then have "((x mod 4) * 16 + y div 16) mod 16 = y div 16" by simp
  moreover have "z div 64 < 4" using assms by simp
  then have "((y mod 16) * 4 + z div 64) div 4 = y mod 16" by simp
  ultimately show ?thesis by simp
qed

lemma byte_of_sextets_3:
  fixes y z :: nat
  assumes "z < 256"
  shows "(((y mod 16) * 4 + z div 64) mod 4) * 64 + z mod 64 = z"
proof -
  have "z div 64 < 4" using assms by simp
  then have "((y mod 16) * 4 + z div 64) mod 4 = z div 64" by simp
  then show ?thesis by simp
qed

lemma sextet_bounds:
  fixes x y z :: nat
  assumes "x < 256" "y < 256" "z < 256"
  shows "x div 4 < 64" "(x mod 4) * 16 + y div 16 < 64" "(y mod 16) * 4 + z div 64 < 64" "z mod 64 < 64"
proof -
  show "x div 4 < 64" using assms by simp
  have "x mod 4 < 4" "y div 16 < 16" using assms by simp_all
  then show "(x mod 4) * 16 + y div 16 < 64" by linarith
  have "y mod 16 < 16" "z div 64 < 4" using assms by simp_all
  then show "(y mod 16) * 4 + z div 64 < 64" by linarith
  show "z mod 64 < 64" by simp
qed

lemma decode_group3:
  "base64_decode (base64_encode (a # b # c # rest)) = a # b # c # base64_decode (base64_encode rest)"
proof -
  let ?x = "of_char a :: nat" and ?y = "of_char b :: nat" and ?z = "of_char c :: nat"
  have b: "?x < 256" "?y < 256" "?z < 256" by simp_all
  note sb = sextet_bounds [OF b]
  have "char_of ((?x div 4) * 4 + ((?x mod 4) * 16 + ?y div 16) div 16) = a"
    using byte_of_sextets_1 [OF b(2), of ?x] by simp
  moreover have "char_of ((((?x mod 4) * 16 + ?y div 16) mod 16) * 16 + ((?y mod 16) * 4 + ?z div 64) div 4) = b"
    using byte_of_sextets_2 [OF b(2) b(3), of ?x] by simp
  moreover have "char_of ((((?y mod 16) * 4 + ?z div 64) mod 4) * 64 + ?z mod 64) = c"
    using byte_of_sextets_3 [OF b(3), of ?y] by simp
  ultimately show ?thesis
    by (simp add: Let_def char_sextet_char sb sextet_char_not_pad)
qed

lemma decode_group2:
  "base64_decode (base64_encode [a, b]) = [a, b]"
proof -
  let ?x = "of_char a :: nat" and ?y = "of_char b :: nat"
  have b: "?x < 256" "?y < 256" "(0::nat) < 256" by simp_all
  have sb: "?x div 4 < 64" "(?x mod 4) * 16 + ?y div 16 < 64" "(?y mod 16) * 4 < 64"
    using sextet_bounds [OF b] by simp_all
  have "char_of ((?x div 4) * 4 + ((?x mod 4) * 16 + ?y div 16) div 16) = a"
    using byte_of_sextets_1 [OF b(2), of ?x] by simp
  moreover have "char_of ((((?x mod 4) * 16 + ?y div 16) mod 16) * 16 + ((?y mod 16) * 4) div 4) = b"
    using byte_of_sextets_2 [OF b(2) b(3), of ?x] by simp
  ultimately show ?thesis
    by (simp add: Let_def char_sextet_char sb sextet_char_not_pad)
qed

lemma decode_group1:
  "base64_decode (base64_encode [a]) = [a]"
proof -
  let ?x = "of_char a :: nat"
  have b: "?x < 256" "(0::nat) < 256" by simp_all
  have sb: "?x div 4 < 64" "(?x mod 4) * 16 < 64"
    using sextet_bounds [OF b(1) b(2) b(2)] by simp_all
  have "char_of ((?x div 4) * 4 + ((?x mod 4) * 16) div 16) = a"
    using byte_of_sextets_1 [OF b(2), of ?x] by simp
  then show ?thesis
    by (simp add: Let_def char_sextet_char sb sextet_char_not_pad)
qed

lemma base64_roundtrip: "base64_decode (base64_encode bs) = bs"
proof (induction bs rule: base64_encode.induct)
  case 1
  show ?case by simp
next
  case (2 a)
  show ?case by (rule decode_group1)
next
  case (3 a b)
  show ?case by (rule decode_group2)
next
  case (4 a b c rest)
  then show ?case by (simp only: decode_group3)
qed

subsection \<open>The table store and the two reads\<close>

lemma project_record_None: "project_record None = (\<lambda>r. r)"
  by (rule ext) (simp add: project_record_def)

lemma airtable_select_everything: "airtable_select rank select_everything recs = recs"
  by (simp add: airtable_select_def select_everything_def limit_records_def project_record_None)

lemma airtable_select_empty: "airtable_select rank (freshness_query f) [] = []"
  by (simp add: airtable_select_def freshness_query_def limit_records_def sort_records_def)

lemma getLast_trace:
  "fst (getLastAirtableModificationTime w table f) = [AirtableQuery table (freshness_query f)]"
  by (simp add: getLastAirtableModificationTime_def await_def query_all_def Let_def
      split: sum.splits list.splits)

lemma getLast_eq:
  "getLastAirtableModificationTime w table f =
     ([AirtableQuery table (freshness_query f)], snd (getLastAirtableModificationTime w table f))"
  using getLast_trace [of w table f] by (metis prod.collapse)

lemma getLast_empty:
  assumes "table_at_check w table = Inr []"
  shows "getLastAirtableModificationTime w table f = ([AirtableQuery table (freshness_query f)], Inr None)"
  using assms
  by (simp add: getLastAirtableModificationTime_def await_def query_all_def Let_def
      airtable_select_empty)

lemma getTargetFileSHA_trace: "fst (getTargetFileSHA w g) = [HttpGet (target_url g)]"
  by (simp add: getTargetFileSHA_def await_def Let_def split: sum.splits)

subsection \<open>The threshold check and the export step\<close>

lemma js_ge_not_lt: "js_ge x y \<Longrightarrow> \<not> js_lt x y"
  by (cases x; cases y) simp_all

lemma export_by_threshold:
  assumes "snd (getLastAirtableModificationTime w (table_of a) (lastModifiedField a)) = Inr (Some d)"
  shows "exportAirtableDataToGitHub w a g arg =
     (if js_lt (timeSinceLastUpdate w d) (timeTreshold_of arg)
      then ([AirtableQuery (table_of a) (freshness_query (lastModifiedField a)),
             ConsoleInfo (BelowThreshold (timeTreshold_of arg))], Inr ())
      else (AirtableQuery (table_of a) (freshness_query (lastModifiedField a))
              # fst (export_step w (table_of a) g),
            snd (export_step w (table_of a) g)))"
proof -
  have "getLastAirtableModificationTime w (table_of a) (lastModifiedField a) =
      ([AirtableQuery (table_of a) (freshness_query (lastModifiedField a))], Inr (Some d))"
    using getLast_eq [of w "table_of a" "lastModifiedField a"] assms by simp
  then show ?thesis
    by (simp add: exportAirtableDataToGitHub_def await_def Let_def split: prod.splits)
qed

lemma export_no_data:
  assumes "table_at_check w (table_of a) = Inr []"
  shows "exportAirtableDataToGitHub w a g arg =
           ([AirtableQuery (table_of a) (freshness_query (lastModifiedField a)),
             ConsoleWarn NoUpdateTime],
            Inr ())"
  by (simp add: getLast_empty [OF assms] exportAirtableDataToGitHub_def await_def Let_def)

lemma export_trace_nonempty: "fst (exportAirtableDataToGitHub w a g arg) \<noteq> []"
proof -
  obtain r where "getLastAirtableModificationTime w (table_of a) (lastModifiedField a) =
      ([AirtableQuery (table_of a) (freshness_query (lastModifiedField a))], r)"
    using getLast_eq [of w "table_of a" "lastModifiedField a"] by blast
  then show ?thesis
    by (simp add: exportAirtableDataToGitHub_def await_def Let_def
        split: sum.splits prod.splits)
qed

lemma export_step_success:
  assumes "table_at_export w table = Inr recs"
    and "axios_get w (target_url g) = Inr data"
    and "get_property data ''sha'' = Inr sha"
  shows "export_step w table g =
     ([ConsoleInfo OverThreshold,
       AirtableQuery table select_everything,
       HttpGet (target_url g),
       GitHubPut (GitHubConfig.apiKey g)
         \<lparr>put_owner = user g, put_repo = repo g, put_path = path g,
          put_message = message g, put_sha = sha,
          put_content = toBase64 (toJSON w (JArr (map (\<lambda>m. JObj (rec_fields m)) recs)))\<rparr>],
      octokit_put w (GitHubConfig.apiKey g)
         \<lparr>put_owner = user g, put_repo = repo g, put_path = path g,
          put_message = message g, put_sha = sha,
          put_content = toBase64 (toJSON w (JArr (map (\<lambda>m. JObj (rec_fields m)) recs)))\<rparr>)"
  using assms
  by (simp add: export_step_def await_def query_all_def getTargetFileSHA_def
      airtable_select_everything Let_def)

lemma getTargetFileSHA_eq:
  "getTargetFileSHA w g = ([HttpGet (target_url g)], snd (getTargetFileSHA w g))"
  using getTargetFileSHA_trace [of w g] by (metis prod.collapse)

lemma export_step_reads:
  assumes "table_at_export w table = Inr recs"
    and "snd (getTargetFileSHA w g) = Inr sha"
  shows "export_step w table g =
     ([ConsoleInfo OverThreshold,
       AirtableQuery table select_everything,
       HttpGet (target_url g),
       GitHubPut (GitHubConfig.apiKey g)
         \<lparr>put_owner = user g, put_repo = repo g, put_path = path g,
          put_message = message g, put_sha = sha,
          put_content = toBase64 (toJSON w (JArr (map (\<lambda>m. JObj (rec_fields m)) recs)))\<rparr>],
      octokit_put w (GitHubConfig.apiKey g)
         \<lparr>put_owner = user g, put_repo = repo g, put_path = path g,
          put_message = message g, put_sha = sha,
          put_content = toBase64 (toJSON w (JArr (map (\<lambda>m. JObj (rec_fields m)) recs)))\<rparr>)"
proof -
  have s: "getTargetFileSHA w g = ([HttpGet (target_url g)], Inr sha)"
    using getTargetFileSHA_eq [of w g] assms(2) by simp
  show ?thesis
    by (simp add: export_step_def await_def query_all_def assms(1) s
        airtable_select_everything Let_def)
qed

lemma export_step_hash_rejected:
  assumes "table_at_export w table = Inr recs"
    and "snd (getTargetFileSHA w g) = Inl e"
  shows "export_step w table g =
     ([ConsoleInfo OverThreshold,
       AirtableQuery table select_everything,
       HttpGet (target_url g)],
      Inl e)"
proof -
  have s: "getTargetFileSHA w g = ([HttpGet (target_url g)], Inl e)"
    using getTargetFileSHA_eq [of w g] assms(2) by simp
  show ?thesis
    by (simp add: export_step_def await_def query_all_def assms(1) s)
qed

lemma export_step_prefix:
  "\<exists>tr. fst (export_step w table g) = [ConsoleInfo OverThreshold, AirtableQuery table select_everything] @ tr"
  by (simp add: export_step_def await_def query_all_def split: sum.splits prod.splits)

lemma export_step_write:
  assumes "GitHubPut auth request \<in> set (fst (export_step w table g))"
  shows "\<exists>recs. table_at_export w table = Inr recs
           \<and> put_content request = toBase64 (toJSON w (JArr (map (\<lambda>m. JObj (rec_fields m)) recs)))"
proof (cases "table_at_export w table")
  case (Inl e)
  with assms show ?thesis
    by (simp add: export_step_def await_def query_all_def)
next
  case (Inr recs)
  show ?thesis
  proof (cases "snd (getTargetFileSHA w g)")
    case (Inl e)
    then have "getTargetFileSHA w g = (fst (getTargetFileSHA w g), Inl e)"
      by (metis prod.collapse)
    moreover have "fst (getTargetFileSHA w g) = [HttpGet (target_url g)]"
      by (simp add: getTargetFileSHA_def await_def Let_def split: sum.splits)
    ultimately show ?thesis
      using assms Inr by (simp add: export_step_def await_def query_all_def)
  next
    case sha: (Inr currentSHA)
    then have "getTargetFileSHA w g = (fst (getTargetFileSHA w g), Inr currentSHA)"
      by (metis prod.collapse)
    moreover have "fst (getTargetFileSHA w g) = [HttpGet (target_url g)]"
      by (simp add: getTargetFileSHA_def await_def Let_def split: sum.splits)
    ultimately show ?thesis
      using assms Inr
      by (auto simp add: export_step_def await_def query_all_def Let_def airtable_select_everything)
  qed
qed

lemma export_write_in_step:
  assumes "GitHubPut auth request \<in> set (fst (exportAirtableDataToGitHub w a g arg))"
  shows "GitHubPut auth request \<in> set (fst (export_step w (table_of a) g))"
proof (cases "snd (getLastAirtableModificationTime w (table_of a) (lastModifiedField a))")
  case (Inl e)
  then have "getLastAirtableModificationTime w (table_of a) (lastModifiedField a) =
      ([AirtableQuery (table_of a) (freshness_query (lastModifiedField a))], Inl e)"
    using getLast_eq [of w "table_of a" "lastModifiedField a"] by simp
  with assms show ?thesis
    by (simp add: exportAirtableDataToGitHub_def await_def Let_def)
next
  case (Inr lastUpdate)
  show ?thesis
  proof (cases lastUpdate)
    case None
    with Inr have "getLastAirtableModificationTime w (table_of a) (lastModifiedField a) =
        ([AirtableQuery (table_of a) (freshness_query (lastModifiedField a))], Inr None)"
      using getLast_eq [of w "table_of a" "lastModifiedField a"] by simp
    with assms show ?thesis
      by (simp add: exportAirtableDataToGitHub_def await_def Let_def)
  next
    case (Some d)
    with Inr have d: "snd (getLastAirtableModificationTime w (table_of a) (lastModifiedField a)) = Inr (Some d)"
      by simp
    from assms show ?thesis
      unfolding export_by_threshold [OF d] by (simp split: if_splits)
  qed
qed

lemma export_step_hash_failure:
  assumes "snd (getTargetFileSHA w g) = Inl e"
  shows "filter is_write (fst (export_step w table g)) = []
       \<and> (HttpGet (target_url g) \<in> set (fst (export_step w table g))
            \<longrightarrow> snd (export_step w table g) = Inl e)"
proof -
  have s: "getTargetFileSHA w g = ([HttpGet (target_url g)], Inl e)"
    using assms getTargetFileSHA_trace [of w g] by (metis prod.collapse)
  show ?thesis
    by (cases "table_at_export w table")
       (simp_all add: export_step_def await_def query_all_def s)
qed

subsection \<open>The entry point\<close>

lemma main_present:
  assumes "process_env w ''AIRTABLE_API_KEY'' = Some k1"
    and "process_env w ''GITHUB_API_TOKEN'' = Some k2"
  shows "main w = exportAirtableDataToGitHub w (main_airtableConfig k1) (main_githubConfig k2) None"
  using assms
  by (simp add: main_def envOrDie_def await_def Let_def main_airtableConfig_def
      main_githubConfig_def split: prod.splits)

lemma main_airtable_absent:
  assumes "process_env w ''AIRTABLE_API_KEY'' = None"
  shows "main w = ([], Inl (ThrownString ''Please define the AIRTABLE_API_KEY env variable.''))"
  using assms by (simp add: main_def envOrDie_def await_def)

lemma main_github_absent:
  assumes "process_env w ''AIRTABLE_API_KEY'' = Some k1"
    and "process_env w ''GITHUB_API_TOKEN'' = None"
  shows "main w = ([], Inl (ThrownString ''Please define the GITHUB_API_TOKEN env variable.''))"
  using assms by (simp add: main_def envOrDie_def await_def Let_def)

subsection \<open>The example runs\<close>

lemma getLast_stamped:
  "snd (getLastAirtableModificationTime (example_world now env stamped_records ex answer)
          (table_of example_airtableConfig) (lastModifiedField example_airtableConfig))
   = Inr (Some (ValidDate 1577836800000))"
  by (simp add: getLastAirtableModificationTime_def await_def query_all_def Let_def
      example_world_def stamped_records_def example_airtableConfig_def freshness_query_def
      airtable_select_def sort_records_def project_record_def limit_records_def
      example_parse_def date_of_parse_def)

lemma select_unparsable:
  "airtable_select example_rank (freshness_query ''Last Update'') unparsable_records
     = [\<lparr>rec_id = ''rec1'', rec_fields = [(''Last Update'', JStr ''yesterday'')]\<rparr>]"
  by (simp add: airtable_select_def freshness_query_def sort_records_def project_record_def
      limit_records_def unparsable_records_def)

lemma stringify_AB:
  "JSON_stringify example_number_text (JArr [JObj [(''A'', JNum (Fin 1))], JObj [(''B'', JNum (Fin 2))]]) 2 = AB_text"
  by code_simp

lemma toBase64_AB: "toBase64 AB_text = ''WwogIHsKICAgICJBIjogMQogIH0sCiAgewogICAgIkIiOiAyCiAgfQpd''"
  by code_simp

lemma example_content:
  "toBase64 (toJSON (example_world now env at_check at_export answer)
               (JArr (map (\<lambda>m. JObj (rec_fields m)) AB_records)))
     = ''WwogIHsKICAgICJBIjogMQogIH0sCiAgewogICAgIkIiOiAyCiAgfQpd''"
  using stringify_AB toBase64_AB
  by (simp add: AB_records_def toJSON_def example_world_def)

text \<open>The encoder on the test vectors of RFC 4648, and the serializer on other shapes.\<close>

lemma base64_encode_vectors:
  "base64_encode [] = []"
  "base64_encode ''f'' = ''Zg==''"
  "base64_encode ''fo'' = ''Zm8=''"
  "base64_encode ''foo'' = ''Zm9v''"
  "base64_encode ''foob'' = ''Zm9vYg==''"
  "base64_encode ''fooba'' = ''Zm9vYmE=''"
  "base64_encode ''foobar'' = ''Zm9vYmFy''"
  by code_simp+

lemma JSON_stringify_shapes:
  "JSON_stringify nt (JArr []) 2 = ''[]''"
  "JSON_stringify nt (JArr [JObj []]) 2 = ''['' @ [CHR 0x0A] @ ''  {}'' @ [CHR 0x0A] @ '']''"
  "JSON_stringify nt (JArr [JNull, JBool True, JNum NaN]) 2 =
     ''['' @ [CHR 0x0A] @ ''  null,'' @ [CHR 0x0A] @ ''  true,'' @ [CHR 0x0A] @ ''  null''
       @ [CHR 0x0A] @ '']''"
  "JSON_stringify nt (JStr [CHR ''a'', CHR 0x22, CHR 0x0A, CHR 0x01]) 2 =
     [CHR 0x22, CHR ''a'', CHR 0x5C, CHR 0x22, CHR 0x5C, CHR ''n'',
      CHR 0x5C, CHR ''u'', CHR ''0'', CHR ''0'', CHR ''0'', CHR ''1'', CHR 0x22]"
  by code_simp+

lemma example_configs:
  "main_airtableConfig ''keyA'' = example_airtableConfig"
  "main_githubConfig ''tokenG'' = example_githubConfig"
  by (simp_all add: main_airtableConfig_def main_githubConfig_def example_airtableConfig_def
      example_githubConfig_def)

lemma example_export_run:
  "exportAirtableDataToGitHub
     (example_world 1577837101000 env stamped_records AB_records sha_answer)
     example_airtableConfig (main_githubConfig token) None =
   ([AirtableQuery (table_of example_airtableConfig) (freshness_query ''Last Update''),
     ConsoleInfo OverThreshold,
     AirtableQuery (table_of example_airtableConfig) select_everything,
     HttpGet ''https://api.github.com/repos/zoul/airtable-export/contents/data.json'',
     GitHubPut token AB_request],
    Inr ())"
proof -
  let ?w = "example_world 1577837101000 env stamped_records AB_records sha_answer"
  have h1: "snd (getLastAirtableModificationTime ?w (table_of example_airtableConfig)
                  (lastModifiedField example_airtableConfig)) = Inr (Some (ValidDate 1577836800000))"
    by (rule getLast_stamped)
  have h2: "\<not> js_lt (timeSinceLastUpdate ?w (ValidDate 1577836800000)) (timeTreshold_of None)"
    by (simp add: timeSinceLastUpdate_def timeTreshold_of_def example_world_def)
  have h3: "table_at_export ?w (table_of example_airtableConfig) = Inr AB_records"
    by (simp add: example_world_def)
  have h4: "axios_get ?w (target_url (main_githubConfig token))
             = Inr (JObj [(''name'', JStr ''data.json''), (''sha'', JStr ''3b18e512'')])"
    by (simp add: example_world_def sha_answer_def)
  have h5: "get_property (JObj [(''name'', JStr ''data.json''), (''sha'', JStr ''3b18e512'')]) ''sha''
             = Inr (Some (JStr ''3b18e512''))"
    by simp
  have h6: "octokit_put ?w auth request = Inr ()" for auth request
    by (simp add: example_world_def)
  have c: "toBase64 (toJSON ?w (JArr (map (\<lambda>m. JObj (rec_fields m)) AB_records)))
            = ''WwogIHsKICAgICJBIjogMQogIH0sCiAgewogICAgIkIiOiAyCiAgfQpd''"
    by (rule example_content)
  have g: "exportAirtableDataToGitHub ?w example_airtableConfig (main_githubConfig token) None =
      (AirtableQuery (table_of example_airtableConfig)
         (freshness_query (lastModifiedField example_airtableConfig))
         # fst (export_step ?w (table_of example_airtableConfig) (main_githubConfig token)),
       snd (export_step ?w (table_of example_airtableConfig) (main_githubConfig token)))"
    using h2 by (simp add: export_by_threshold [OF h1])
  show ?thesis
    unfolding g export_step_success [OF h3 h4 h5] c h6
    by (simp add: AB_request_def main_githubConfig_def example_airtableConfig_def target_url_def)
qed

section \<open>The claims\<close>

text \<open>
  Claim C1 says that every run in which the freshness query returns a modification time
  at least the cooldown old performs the export end to end, up to the create-or-update
  call. It does not when one of the two reads of the export fails: 301 s after the last
  update, with the read of the target file's hash answered by a 404, the run ends with
  that failure after the hash read, and no create-or-update call is made.
\<close>

theorem export_over_threshold_counterexample:
  "snd (getLastAirtableModificationTime
          (example_world 1577837101000 example_env stamped_records AB_records not_found_answer)
          (table_of example_airtableConfig) (lastModifiedField example_airtableConfig))
     = Inr (Some (ValidDate 1577836800000))
   \<and> js_ge (timeSinceLastUpdate
          (example_world 1577837101000 example_env stamped_records AB_records not_found_answer)
          (ValidDate 1577836800000)) (timeTreshold_of None)
   \<and> exportAirtableDataToGitHub
        (example_world 1577837101000 example_env stamped_records AB_records not_found_answer)
        example_airtableConfig example_githubConfig None =
     ([AirtableQuery (table_of example_airtableConfig) (freshness_query ''Last Update''),
       ConsoleInfo OverThreshold,
       AirtableQuery (table_of example_airtableConfig) select_everything,
       HttpGet ''https://api.github.com/repos/zoul/airtable-export/contents/data.json''],
      Inl (RequestFailed ''Request failed with status code 404''))
   \<and> filter is_write (fst (exportAirtableDataToGitHub
        (example_world 1577837101000 example_env stamped_records AB_records not_found_answer)
        example_airtableConfig example_githubConfig None)) = []"
proof -
  let ?w = "example_world 1577837101000 example_env stamped_records AB_records not_found_answer"
  have f: "lastModifiedField example_airtableConfig = ''Last Update''"
    by (simp add: example_airtableConfig_def)
  have h1: "snd (getLastAirtableModificationTime ?w (table_of example_airtableConfig)
                  (lastModifiedField example_airtableConfig)) = Inr (Some (ValidDate 1577836800000))"
    by (rule getLast_stamped)
  have h2: "js_ge (timeSinceLastUpdate ?w (ValidDate 1577836800000)) (timeTreshold_of None)"
    by (simp add: timeSinceLastUpdate_def timeTreshold_of_def example_world_def)
  have h3: "table_at_export ?w (table_of example_airtableConfig) = Inr AB_records"
    by (simp add: example_world_def)
  have h4: "snd (getTargetFileSHA ?w example_githubConfig)
             = Inl (RequestFailed ''Request failed with status code 404'')"
    by (simp add: getTargetFileSHA_def await_def Let_def example_world_def not_found_answer_def)
  have u: "target_url example_githubConfig
            = ''https://api.github.com/repos/zoul/airtable-export/contents/data.json''"
    by (simp add: target_url_def example_githubConfig_def)
  have e: "exportAirtableDataToGitHub ?w example_airtableConfig example_githubConfig None =
     ([AirtableQuery (table_of example_airtableConfig) (freshness_query ''Last Update''),
       ConsoleInfo OverThreshold,
       AirtableQuery (table_of example_airtableConfig) select_everything,
       HttpGet ''https://api.github.com/repos/zoul/airtable-export/contents/data.json''],
      Inl (RequestFailed ''Request failed with status code 404''))"
    using js_ge_not_lt [OF h2]
    by (simp add: export_by_threshold [OF h1] export_step_hash_rejected [OF h3 h4] f u)
  from h1 h2 e show ?thesis by simp
qed

text \<open>
  Claim C1 as amended. In a run in which the freshness query returns a modification time
  and the elapsed time from it to now is at least the cooldown, and in which the read of
  all records and the read of the target file's hash are both answered,
  \<^verbatim>\<open>exportAirtableDataToGitHub\<close> performs the export exactly once: after the freshness
  query, the calls that leave the process are one read of all records, then one read of
  the target file's hash, then one create-or-update call with the base64 content, the
  target path, the commit message and the hash just read; the result of the run is the
  result of that call.
\<close>

theorem export_over_threshold:
  assumes "snd (getLastAirtableModificationTime w (table_of a) (lastModifiedField a)) = Inr (Some lastUpdate)"
    and "js_ge (timeSinceLastUpdate w lastUpdate) (timeTreshold_of arg)"
    and "table_at_export w (table_of a) = Inr recs"
    and "snd (getTargetFileSHA w g) = Inr sha"
  shows "exportAirtableDataToGitHub w a g arg =
     ([AirtableQuery (table_of a) (freshness_query (lastModifiedField a)),
       ConsoleInfo OverThreshold,
       AirtableQuery (table_of a) select_everything,
       HttpGet (target_url g),
       GitHubPut (GitHubConfig.apiKey g)
         \<lparr>put_owner = user g, put_repo = repo g, put_path = path g,
          put_message = message g, put_sha = sha,
          put_content = toBase64 (toJSON w (JArr (map (\<lambda>m. JObj (rec_fields m)) recs)))\<rparr>],
      octokit_put w (GitHubConfig.apiKey g)
         \<lparr>put_owner = user g, put_repo = repo g, put_path = path g,
          put_message = message g, put_sha = sha,
          put_content = toBase64 (toJSON w (JArr (map (\<lambda>m. JObj (rec_fields m)) recs)))\<rparr>)"
proof -
  have "\<not> js_lt (timeSinceLastUpdate w lastUpdate) (timeTreshold_of arg)"
    using assms(2) by (rule js_ge_not_lt)
  then show ?thesis
    by (simp add: export_by_threshold [OF assms(1)] export_step_reads [OF assms(3,4)])
qed

text \<open>
  The scenario "latest update 301 s ago, threshold 300 s", with both reads answered: the
  export proceeds and uploads both records.
\<close>

theorem export_over_threshold_witness:
  "snd (getLastAirtableModificationTime
          (example_world 1577837101000 example_env stamped_records AB_records sha_answer)
          (table_of example_airtableConfig) (lastModifiedField example_airtableConfig))
     = Inr (Some (ValidDate 1577836800000))
   \<and> js_ge (timeSinceLastUpdate
          (example_world 1577837101000 example_env stamped_records AB_records sha_answer)
          (ValidDate 1577836800000)) (timeTreshold_of (Some (Fin 300)))
   \<and> table_at_export
        (example_world 1577837101000 example_env stamped_records AB_records sha_answer)
        (table_of example_airtableConfig) = Inr AB_records
   \<and> snd (getTargetFileSHA
        (example_world 1577837101000 example_env stamped_records AB_records sha_answer)
        example_githubConfig) = Inr (Some (JStr ''3b18e512''))
   \<and> exportAirtableDataToGitHub
        (example_world 1577837101000 example_env stamped_records AB_records sha_answer)
        example_airtableConfig example_githubConfig (Some (Fin 300)) =
     ([AirtableQuery (table_of example_airtableConfig) (freshness_query ''Last Update''),
       ConsoleInfo OverThreshold,
       AirtableQuery (table_of example_airtableConfig) select_everything,
       HttpGet ''https://api.github.com/repos/zoul/airtable-export/contents/data.json'',
       GitHubPut ''tokenG'' AB_request],
      Inr ())"
proof -
  let ?w = "example_world 1577837101000 example_env stamped_records AB_records sha_answer"
  have f: "lastModifiedField example_airtableConfig = ''Last Update''"
    by (simp add: example_airtableConfig_def)
  have h1: "snd (getLastAirtableModificationTime ?w (table_of example_airtableConfig)
                  (lastModifiedField example_airtableConfig)) = Inr (Some (ValidDate 1577836800000))"
    by (rule getLast_stamped)
  have h2: "js_ge (timeSinceLastUpdate ?w (ValidDate 1577836800000)) (timeTreshold_of (Some (Fin 300)))"
    by (simp add: timeSinceLastUpdate_def timeTreshold_of_def example_world_def)
  have h3: "table_at_export ?w (table_of example_airtableConfig) = Inr AB_records"
    by (simp add: example_world_def)
  have h4: "snd (getTargetFileSHA ?w example_githubConfig) = Inr (Some (JStr ''3b18e512''))"
    by (simp add: getTargetFileSHA_def await_def Let_def example_world_def sha_answer_def)
  have h6: "octokit_put ?w auth request = Inr ()" for auth request
    by (simp add: example_world_def)
  have c: "toBase64 (toJSON ?w (JArr (map (\<lambda>m. JObj (rec_fields m)) AB_records)))
            = ''WwogIHsKICAgICJBIjogMQogIH0sCiAgewogICAgIkIiOiAyCiAgfQpd''"
    by (rule example_content)
  note t = export_over_threshold [OF h1 h2 h3 h4]
  have "exportAirtableDataToGitHub ?w example_airtableConfig example_githubConfig (Some (Fin 300)) =
     ([AirtableQuery (table_of example_airtableConfig) (freshness_query ''Last Update''),
       ConsoleInfo OverThreshold,
       AirtableQuery (table_of example_airtableConfig) select_everything,
       HttpGet ''https://api.github.com/repos/zoul/airtable-export/contents/data.json'',
       GitHubPut ''tokenG'' AB_request],
      Inr ())"
    unfolding t c h6
    by (simp add: AB_request_def example_githubConfig_def target_url_def f)
  with h1 h2 h3 h4 show ?thesis by simp
qed

text \<open>
  Claim C2. In a run in which the freshness query returns a modification time and the
  elapsed time since it is strictly less than the cooldown,
  \<^verbatim>\<open>exportAirtableDataToGitHub\<close> writes the informational message and returns normally:
  the freshness query is the only call that left the process (no read of all records,
  no hash read, no write), and the result is not an error.
\<close>

theorem export_below_threshold:
  assumes "snd (getLastAirtableModificationTime w (table_of a) (lastModifiedField a)) = Inr (Some lastUpdate)"
    and "js_lt (timeSinceLastUpdate w lastUpdate) (timeTreshold_of arg)"
  shows "exportAirtableDataToGitHub w a g arg =
     ([AirtableQuery (table_of a) (freshness_query (lastModifiedField a)),
       ConsoleInfo (BelowThreshold (timeTreshold_of arg))],
      Inr ())"
  using assms(2) by (simp add: export_by_threshold [OF assms(1)])

text \<open>
  The scenario "latest update 10 s ago, threshold 300 s": no export.
\<close>

theorem export_below_threshold_witness:
  "snd (getLastAirtableModificationTime
          (example_world 1577836810000 example_env stamped_records AB_records sha_answer)
          (table_of example_airtableConfig) (lastModifiedField example_airtableConfig))
     = Inr (Some (ValidDate 1577836800000))
   \<and> js_lt (timeSinceLastUpdate
          (example_world 1577836810000 example_env stamped_records AB_records sha_answer)
          (ValidDate 1577836800000)) (timeTreshold_of (Some (Fin 300)))
   \<and> exportAirtableDataToGitHub
        (example_world 1577836810000 example_env stamped_records AB_records sha_answer)
        example_airtableConfig example_githubConfig (Some (Fin 300)) =
     ([AirtableQuery (table_of example_airtableConfig) (freshness_query ''Last Update''),
       ConsoleInfo (BelowThreshold (Fin 300))],
      Inr ())"
proof -
  let ?w = "example_world 1577836810000 example_env stamped_records AB_records sha_answer"
  have h1: "snd (getLastAirtableModificationTime ?w (table_of example_airtableConfig)
                  (lastModifiedField example_airtableConfig)) = Inr (Some (ValidDate 1577836800000))"
    by (rule getLast_stamped)
  have h2: "js_lt (timeSinceLastUpdate ?w (ValidDate 1577836800000)) (timeTreshold_of (Some (Fin 300)))"
    by (simp add: timeSinceLastUpdate_def timeTreshold_of_def example_world_def)
  show ?thesis
    using h1 h2 export_below_threshold [OF h1 h2, of example_githubConfig]
    by (simp add: example_airtableConfig_def timeTreshold_of_def)
qed

text \<open>
  Claim C3. When the table store answers the freshness query from a table with zero
  records, \<^verbatim>\<open>getLastAirtableModificationTime\<close> returns null (here \<open>Inr None\<close>), not an
  exception, and \<^verbatim>\<open>exportAirtableDataToGitHub\<close> then writes the warning and makes no
  further call: no read of all records, no hash read, no write.
\<close>

theorem empty_table_no_export:
  assumes "table_at_check w (table_of a) = Inr []"
  shows "getLastAirtableModificationTime w (table_of a) f =
           ([AirtableQuery (table_of a) (freshness_query f)], Inr None)
       \<and> exportAirtableDataToGitHub w a g arg =
           ([AirtableQuery (table_of a) (freshness_query (lastModifiedField a)),
             ConsoleWarn NoUpdateTime],
            Inr ())"
  by (simp add: getLast_empty [OF assms] exportAirtableDataToGitHub_def await_def Let_def)

theorem empty_table_no_export_witness:
  "table_at_check (example_world 1577837101000 example_env [] [] sha_answer)
      (table_of example_airtableConfig) = Inr []
   \<and> getLastAirtableModificationTime (example_world 1577837101000 example_env [] [] sha_answer)
        (table_of example_airtableConfig) ''Last Update'' =
       ([AirtableQuery (table_of example_airtableConfig) (freshness_query ''Last Update'')], Inr None)
   \<and> exportAirtableDataToGitHub (example_world 1577837101000 example_env [] [] sha_answer)
        example_airtableConfig example_githubConfig None =
       ([AirtableQuery (table_of example_airtableConfig) (freshness_query ''Last Update''),
         ConsoleWarn NoUpdateTime],
        Inr ())"
proof -
  let ?w = "example_world 1577837101000 example_env [] [] sha_answer"
  have h: "table_at_check ?w (table_of example_airtableConfig) = Inr []"
    by (simp add: example_world_def)
  show ?thesis
    using h empty_table_no_export [OF h, of "''Last Update''" example_githubConfig None]
    by (simp add: example_airtableConfig_def)
qed

text \<open>
  Claim C4. Whatever the run, the content of a create-or-update call is the base64
  encoding of \<^verbatim>\<open>JSON.stringify(fields, null, 2)\<close>, where \<open>fields\<close> is the array of the field
  mappings of the records read (their identifiers are not part of it; the text of each
  number is the runtime's); decoding the content from base64 gives that text back
  exactly.
\<close>

theorem uploaded_content_roundtrip:
  assumes "GitHubPut auth request \<in> set (fst (exportAirtableDataToGitHub w a g arg))"
  shows "\<exists>recs. table_at_export w (table_of a) = Inr recs
           \<and> put_content request = toBase64 (toJSON w (JArr (map (\<lambda>m. JObj (rec_fields m)) recs)))
           \<and> base64_decode (put_content request)
               = JSON_stringify (number_text w) (JArr (map (\<lambda>m. JObj (rec_fields m)) recs)) 2"
proof -
  from export_step_write [OF export_write_in_step [OF assms]]
  obtain recs where r: "table_at_export w (table_of a) = Inr recs"
    and c: "put_content request = toBase64 (toJSON w (JArr (map (\<lambda>m. JObj (rec_fields m)) recs)))"
    by blast
  have "base64_decode (put_content request) = JSON_stringify (number_text w) (JArr (map (\<lambda>m. JObj (rec_fields m)) recs)) 2"
    by (simp add: c toBase64_def toJSON_def base64_roundtrip)
  with r c show ?thesis by blast
qed

text \<open>
  For the records \<^verbatim>\<open>[{"A":1},{"B":2}]\<close> the decoded content is the text of
  \<open>AB_text\<close>, character for character.
\<close>

theorem uploaded_content_roundtrip_witness:
  "GitHubPut ''tokenG'' AB_request \<in> set (fst (exportAirtableDataToGitHub
       (example_world 1577837101000 example_env stamped_records AB_records sha_answer)
       example_airtableConfig example_githubConfig None))
   \<and> base64_decode (put_content AB_request)
       = JSON_stringify example_number_text (JArr [JObj [(''A'', JNum (Fin 1))], JObj [(''B'', JNum (Fin 2))]]) 2
   \<and> base64_decode (put_content AB_request) = AB_text"
proof -
  let ?w = "example_world 1577837101000 example_env stamped_records AB_records sha_answer"
  have m: "GitHubPut ''tokenG'' AB_request \<in> set (fst (exportAirtableDataToGitHub ?w
       example_airtableConfig example_githubConfig None))"
    using example_export_run [of example_env "''tokenG''"]
    by (simp add: example_configs)
  from uploaded_content_roundtrip [OF m]
  obtain recs where r: "table_at_export ?w (table_of example_airtableConfig) = Inr recs"
    and d: "base64_decode (put_content AB_request)
             = JSON_stringify (number_text ?w) (JArr (map (\<lambda>m. JObj (rec_fields m)) recs)) 2"
    by blast
  from r have "recs = AB_records" by (simp add: example_world_def)
  have n: "number_text ?w = example_number_text"
    by (simp add: example_world_def)
  from d \<open>recs = AB_records\<close> have "base64_decode (put_content AB_request)
       = JSON_stringify example_number_text (JArr [JObj [(''A'', JNum (Fin 1))], JObj [(''B'', JNum (Fin 2))]]) 2"
    unfolding n by (simp add: AB_records_def)
  with m stringify_AB show ?thesis by simp
qed

text \<open>
  Claim C5. When reading the hash of the target file fails (the request is rejected, as
  for a file that does not exist, or the answer has no readable body), no
  create-or-update call is made in the run; if the run got as far as the hash read, its
  result is that failure.
\<close>

theorem hash_read_failure_prevents_write:
  assumes "snd (getTargetFileSHA w g) = Inl e"
  shows "filter is_write (fst (exportAirtableDataToGitHub w a g arg)) = []
       \<and> (HttpGet (target_url g) \<in> set (fst (exportAirtableDataToGitHub w a g arg))
            \<longrightarrow> snd (exportAirtableDataToGitHub w a g arg) = Inl e)"
proof (cases "snd (getLastAirtableModificationTime w (table_of a) (lastModifiedField a))")
  case (Inl e')
  then have "getLastAirtableModificationTime w (table_of a) (lastModifiedField a) =
      ([AirtableQuery (table_of a) (freshness_query (lastModifiedField a))], Inl e')"
    using getLast_eq [of w "table_of a" "lastModifiedField a"] by simp
  then show ?thesis
    by (simp add: exportAirtableDataToGitHub_def await_def Let_def)
next
  case (Inr lastUpdate)
  show ?thesis
  proof (cases lastUpdate)
    case None
    with Inr have "getLastAirtableModificationTime w (table_of a) (lastModifiedField a) =
        ([AirtableQuery (table_of a) (freshness_query (lastModifiedField a))], Inr None)"
      using getLast_eq [of w "table_of a" "lastModifiedField a"] by simp
    then show ?thesis
      by (simp add: exportAirtableDataToGitHub_def await_def Let_def)
  next
    case (Some d)
    with Inr have d: "snd (getLastAirtableModificationTime w (table_of a) (lastModifiedField a)) = Inr (Some d)"
      by simp
    show ?thesis
      using export_step_hash_failure [OF assms, of "table_of a"]
      by (simp add: export_by_threshold [OF d])
  qed
qed

theorem hash_read_failure_prevents_write_witness:
  "snd (getTargetFileSHA
          (example_world 1577837101000 example_env stamped_records AB_records not_found_answer)
          example_githubConfig) = Inl (RequestFailed ''Request failed with status code 404'')
   \<and> filter is_write (fst (exportAirtableDataToGitHub
          (example_world 1577837101000 example_env stamped_records AB_records not_found_answer)
          example_airtableConfig example_githubConfig None)) = []
   \<and> HttpGet (target_url example_githubConfig) \<in> set (fst (exportAirtableDataToGitHub
          (example_world 1577837101000 example_env stamped_records AB_records not_found_answer)
          example_airtableConfig example_githubConfig None))
   \<and> snd (exportAirtableDataToGitHub
          (example_world 1577837101000 example_env stamped_records AB_records not_found_answer)
          example_airtableConfig example_githubConfig None)
       = Inl (RequestFailed ''Request failed with status code 404'')"
proof -
  let ?w = "example_world 1577837101000 example_env stamped_records AB_records not_found_answer"
  have h: "snd (getTargetFileSHA ?w example_githubConfig)
            = Inl (RequestFailed ''Request failed with status code 404'')"
    by (simp add: getTargetFileSHA_def await_def Let_def example_world_def not_found_answer_def)
  have h1: "snd (getLastAirtableModificationTime ?w (table_of example_airtableConfig)
                  (lastModifiedField example_airtableConfig)) = Inr (Some (ValidDate 1577836800000))"
    by (rule getLast_stamped)
  have h2: "\<not> js_lt (timeSinceLastUpdate ?w (ValidDate 1577836800000)) (timeTreshold_of None)"
    by (simp add: timeSinceLastUpdate_def timeTreshold_of_def example_world_def)
  have g: "exportAirtableDataToGitHub ?w example_airtableConfig example_githubConfig None =
      (AirtableQuery (table_of example_airtableConfig)
         (freshness_query (lastModifiedField example_airtableConfig))
         # fst (export_step ?w (table_of example_airtableConfig) example_githubConfig),
       snd (export_step ?w (table_of example_airtableConfig) example_githubConfig))"
    using h2 by (simp add: export_by_threshold [OF h1])
  have m: "HttpGet (target_url example_githubConfig) \<in> set (fst (exportAirtableDataToGitHub ?w
          example_airtableConfig example_githubConfig None))"
    unfolding g
    by (simp add: export_step_def await_def query_all_def
        getTargetFileSHA_def Let_def example_world_def not_found_answer_def)
  show ?thesis
    using h m hash_read_failure_prevents_write [OF h, of example_airtableConfig None]
    by simp
qed

text \<open>
  Claim C6. When \<^verbatim>\<open>AIRTABLE_API_KEY\<close> or \<^verbatim>\<open>GITHUB_API_TOKEN\<close> is absent from the
  environment, \<^verbatim>\<open>main\<close> fails with a thrown string naming the first absent variable
  before anything left the process; all the run does is to write that error to the
  console.
\<close>

theorem missing_credential_fails_before_network:
  assumes "process_env w ''AIRTABLE_API_KEY'' = None \<or> process_env w ''GITHUB_API_TOKEN'' = None"
  shows "main w = ([], Inl (ThrownString (''Please define the ''
                     @ (if process_env w ''AIRTABLE_API_KEY'' = None
                        then ''AIRTABLE_API_KEY'' else ''GITHUB_API_TOKEN'')
                     @ '' env variable.'')))
       \<and> filter is_network_call (run_main w) = []
       \<and> (\<exists>text. run_main w = [ConsoleError (ThrownString text)])"
proof (cases "process_env w ''AIRTABLE_API_KEY''")
  case None
  show ?thesis
    by (simp add: main_airtable_absent [OF None] None run_main_def)
next
  case (Some k1)
  with assms have g: "process_env w ''GITHUB_API_TOKEN'' = None" by simp
  show ?thesis
    by (simp add: main_github_absent [OF Some g] Some run_main_def)
qed

theorem missing_credential_fails_before_network_witness:
  "process_env (example_world 1577837101000 airtable_only_env stamped_records AB_records sha_answer)
       ''GITHUB_API_TOKEN'' = None
   \<and> main (example_world 1577837101000 airtable_only_env stamped_records AB_records sha_answer)
       = ([], Inl (ThrownString ''Please define the GITHUB_API_TOKEN env variable.''))
   \<and> run_main (example_world 1577837101000 airtable_only_env stamped_records AB_records sha_answer)
       = [ConsoleError (ThrownString ''Please define the GITHUB_API_TOKEN env variable.'')]"
proof -
  let ?w = "example_world 1577837101000 airtable_only_env stamped_records AB_records sha_answer"
  have a: "process_env ?w ''AIRTABLE_API_KEY'' = Some ''keyA''"
    by (simp add: example_world_def airtable_only_env_def)
  have g: "process_env ?w ''GITHUB_API_TOKEN'' = None"
    by (simp add: example_world_def airtable_only_env_def)
  then have "process_env ?w ''AIRTABLE_API_KEY'' = None \<or> process_env ?w ''GITHUB_API_TOKEN'' = None"
    by simp
  from missing_credential_fails_before_network [OF this] a g
  show ?thesis by (simp add: run_main_def)
qed

text \<open>
  Claim C7 says that a credential that is not a non-empty string makes the program fail
  at startup. It does not hold for the empty string: \<^verbatim>\<open>envOrDie\<close> tests \<^verbatim>\<open>val == null\<close>
  only. With \<^verbatim>\<open>GITHUB_API_TOKEN\<close> set to the empty string the run goes through to the
  write, made with the empty token.
\<close>

theorem empty_credential_counterexample:
  "process_env (example_world 1577837101000 blank_token_env stamped_records AB_records sha_answer)
       ''GITHUB_API_TOKEN'' = Some []
   \<and> envOrDie (example_world 1577837101000 blank_token_env stamped_records AB_records sha_answer)
       ''GITHUB_API_TOKEN'' = Inr []
   \<and> main (example_world 1577837101000 blank_token_env stamped_records AB_records sha_answer) =
       ([AirtableQuery (table_of example_airtableConfig) (freshness_query ''Last Update''),
         ConsoleInfo OverThreshold,
         AirtableQuery (table_of example_airtableConfig) select_everything,
         HttpGet ''https://api.github.com/repos/zoul/airtable-export/contents/data.json'',
         GitHubPut [] AB_request],
        Inr ())"
proof -
  let ?w = "example_world 1577837101000 blank_token_env stamped_records AB_records sha_answer"
  have a: "process_env ?w ''AIRTABLE_API_KEY'' = Some ''keyA''"
    by (simp add: example_world_def blank_token_env_def)
  have g: "process_env ?w ''GITHUB_API_TOKEN'' = Some []"
    by (simp add: example_world_def blank_token_env_def)
  have "main ?w =
       ([AirtableQuery (table_of example_airtableConfig) (freshness_query ''Last Update''),
         ConsoleInfo OverThreshold,
         AirtableQuery (table_of example_airtableConfig) select_everything,
         HttpGet ''https://api.github.com/repos/zoul/airtable-export/contents/data.json'',
         GitHubPut [] AB_request],
        Inr ())"
    unfolding main_present [OF a g] example_configs
    by (rule example_export_run)
  then show ?thesis
    using g by (simp add: envOrDie_def)
qed

text \<open>
  Claim C7 as amended. \<^verbatim>\<open>main\<close> fails at startup, before anything left the process,
  whenever one of the two variables is absent. The empty string is not rejected:
  \<^verbatim>\<open>envOrDie\<close> returns the value of a variable that is set as it is, and when
  \<^verbatim>\<open>AIRTABLE_API_KEY\<close> is set to a non-empty string the run starts with the value of
  \<^verbatim>\<open>GITHUB_API_TOKEN\<close> as the credential of the file host, the empty string included.
  (What becomes of an empty \<^verbatim>\<open>AIRTABLE_API_KEY\<close> after \<^verbatim>\<open>envOrDie\<close> returned it is the
  client library's and is not stated.)
\<close>

theorem absent_credential_rejected_empty_accepted:
  "(process_env w ''AIRTABLE_API_KEY'' = None \<or> process_env w ''GITHUB_API_TOKEN'' = None
      \<longrightarrow> (\<exists>msg. main w = ([], Inl (ThrownString msg))))
   \<and> (\<forall>key v. process_env w key = Some v \<longrightarrow> envOrDie w key = Inr v)
   \<and> (\<forall>k1 k2. process_env w ''AIRTABLE_API_KEY'' = Some k1 \<and> k1 \<noteq> []
               \<and> process_env w ''GITHUB_API_TOKEN'' = Some k2
         \<longrightarrow> main w = exportAirtableDataToGitHub w (main_airtableConfig k1) (main_githubConfig k2) None)"
proof -
  have absent: "\<exists>msg. main w = ([], Inl (ThrownString msg))"
    if "process_env w ''AIRTABLE_API_KEY'' = None \<or> process_env w ''GITHUB_API_TOKEN'' = None"
  proof (cases "process_env w ''AIRTABLE_API_KEY''")
    case None
    then show ?thesis by (simp add: main_airtable_absent)
  next
    case (Some k1)
    with that have "process_env w ''GITHUB_API_TOKEN'' = None" by simp
    with Some show ?thesis by (simp add: main_github_absent)
  qed
  have returned: "envOrDie w key = Inr v" if "process_env w key = Some v" for key v
    using that by (simp add: envOrDie_def)
  have started: "main w = exportAirtableDataToGitHub w (main_airtableConfig k1) (main_githubConfig k2) None"
    if "process_env w ''AIRTABLE_API_KEY'' = Some k1" and "process_env w ''GITHUB_API_TOKEN'' = Some k2"
    for k1 k2
    using that by (rule main_present)
  from absent returned started show ?thesis by blast
qed

text \<open>With the token set to the empty string, the run starts with the empty token.\<close>

theorem absent_credential_rejected_empty_accepted_witness:
  "process_env (example_world 1577837101000 blank_token_env [] [] sha_answer) ''AIRTABLE_API_KEY''
     = Some ''keyA''
   \<and> process_env (example_world 1577837101000 blank_token_env [] [] sha_answer) ''GITHUB_API_TOKEN''
     = Some []
   \<and> envOrDie (example_world 1577837101000 blank_token_env [] [] sha_answer) ''GITHUB_API_TOKEN''
     = Inr []
   \<and> main (example_world 1577837101000 blank_token_env [] [] sha_answer) =
       exportAirtableDataToGitHub (example_world 1577837101000 blank_token_env [] [] sha_answer)
         (main_airtableConfig ''keyA'') (main_githubConfig []) None"
proof -
  let ?w = "example_world 1577837101000 blank_token_env [] [] sha_answer"
  have a: "process_env ?w ''AIRTABLE_API_KEY'' = Some ''keyA''"
    by (simp add: example_world_def blank_token_env_def)
  have g: "process_env ?w ''GITHUB_API_TOKEN'' = Some []"
    by (simp add: example_world_def blank_token_env_def)
  note t = absent_credential_rejected_empty_accepted [of ?w]
  from t g have "envOrDie ?w ''GITHUB_API_TOKEN'' = Inr []"
    by blast
  moreover from t a g
  have "main ?w = exportAirtableDataToGitHub ?w (main_airtableConfig ''keyA'') (main_githubConfig []) None"
    by (metis list.distinct(1))
  ultimately show ?thesis using a g by simp
qed

text \<open>
  Claim C8. A call of \<^verbatim>\<open>exportAirtableDataToGitHub\<close> without the cooldown argument
  behaves as the call with a cooldown of 300 seconds.
\<close>

theorem default_cooldown_is_300_seconds:
  "timeTreshold_of None = Fin 300
   \<and> exportAirtableDataToGitHub w a g None = exportAirtableDataToGitHub w a g (Some (Fin 300))"
  by (simp add: exportAirtableDataToGitHub_def timeTreshold_of_def)

text \<open>
  Without the argument, an update 299.999 s ago is below the threshold and one
  300 s ago is not.
\<close>

theorem default_cooldown_is_300_seconds_witness:
  "exportAirtableDataToGitHub
     (example_world 1577837099999 example_env stamped_records AB_records sha_answer)
     example_airtableConfig example_githubConfig None =
   ([AirtableQuery (table_of example_airtableConfig) (freshness_query ''Last Update''),
     ConsoleInfo (BelowThreshold (Fin 300))],
    Inr ())
   \<and> fst (exportAirtableDataToGitHub
     (example_world 1577837100000 example_env stamped_records AB_records sha_answer)
     example_airtableConfig example_githubConfig None) =
     AirtableQuery (table_of example_airtableConfig) (freshness_query ''Last Update'')
       # fst (export_step
               (example_world 1577837100000 example_env stamped_records AB_records sha_answer)
               (table_of example_airtableConfig) example_githubConfig)"
proof -
  let ?w = "example_world 1577837099999 example_env stamped_records AB_records sha_answer"
  let ?v = "example_world 1577837100000 example_env stamped_records AB_records sha_answer"
  have f: "lastModifiedField example_airtableConfig = ''Last Update''"
    by (simp add: example_airtableConfig_def)
  have w1: "snd (getLastAirtableModificationTime ?w (table_of example_airtableConfig)
                  (lastModifiedField example_airtableConfig)) = Inr (Some (ValidDate 1577836800000))"
    by (rule getLast_stamped)
  have w2: "js_lt (timeSinceLastUpdate ?w (ValidDate 1577836800000)) (timeTreshold_of (Some (Fin 300)))"
    by (simp add: timeSinceLastUpdate_def timeTreshold_of_def example_world_def)
  have v1: "snd (getLastAirtableModificationTime ?v (table_of example_airtableConfig)
                  (lastModifiedField example_airtableConfig)) = Inr (Some (ValidDate 1577836800000))"
    by (rule getLast_stamped)
  have v2: "\<not> js_lt (timeSinceLastUpdate ?v (ValidDate 1577836800000)) (timeTreshold_of (Some (Fin 300)))"
    by (simp add: timeSinceLastUpdate_def timeTreshold_of_def example_world_def)
  have "exportAirtableDataToGitHub ?w example_airtableConfig example_githubConfig (Some (Fin 300)) =
     ([AirtableQuery (table_of example_airtableConfig) (freshness_query ''Last Update''),
       ConsoleInfo (BelowThreshold (Fin 300))], Inr ())"
    using w2 by (simp add: export_by_threshold [OF w1] timeTreshold_of_def f)
  moreover have "fst (exportAirtableDataToGitHub ?v example_airtableConfig example_githubConfig (Some (Fin 300))) =
     AirtableQuery (table_of example_airtableConfig) (freshness_query ''Last Update'')
       # fst (export_step ?v (table_of example_airtableConfig) example_githubConfig)"
    using v2 by (simp add: export_by_threshold [OF v1] f)
  ultimately show ?thesis
    using default_cooldown_is_300_seconds [of ?w example_airtableConfig example_githubConfig]
      default_cooldown_is_300_seconds [of ?v example_airtableConfig example_githubConfig]
    by simp
qed

text \<open>
  Claim C9. When the time stamp field of the most recent record holds a string that the
  runtime does not parse as a date-time, \<^verbatim>\<open>getLastAirtableModificationTime\<close> returns an
  Invalid Date (neither null nor an exception); the elapsed time is NaN, which is not
  less than any threshold, and the export step is run, as in the case over the
  threshold.
\<close>

theorem unparsable_stamp_exports:
  assumes "table_at_check w (table_of a) = Inr recs"
    and "airtable_select (store_rank w) (freshness_query (lastModifiedField a)) recs = r # rest"
    and "lookup (rec_fields r) (lastModifiedField a) = Some (JStr s)"
    and "Date_parse w s = None"
  shows "getLastAirtableModificationTime w (table_of a) (lastModifiedField a) =
           ([AirtableQuery (table_of a) (freshness_query (lastModifiedField a))], Inr (Some InvalidDate))
       \<and> timeSinceLastUpdate w InvalidDate = NaN
       \<and> \<not> js_lt (timeSinceLastUpdate w InvalidDate) (timeTreshold_of arg)
       \<and> exportAirtableDataToGitHub w a g arg =
           (AirtableQuery (table_of a) (freshness_query (lastModifiedField a))
              # fst (export_step w (table_of a) g),
            snd (export_step w (table_of a) g))
       \<and> (\<exists>tr. fst (exportAirtableDataToGitHub w a g arg) =
              [AirtableQuery (table_of a) (freshness_query (lastModifiedField a)),
               ConsoleInfo OverThreshold,
               AirtableQuery (table_of a) select_everything] @ tr)"
proof -
  have l: "getLastAirtableModificationTime w (table_of a) (lastModifiedField a) =
           ([AirtableQuery (table_of a) (freshness_query (lastModifiedField a))], Inr (Some InvalidDate))"
    using assms
    by (simp add: getLastAirtableModificationTime_def await_def query_all_def Let_def
        date_of_parse_def)
  have n: "timeSinceLastUpdate w InvalidDate = NaN"
    by (simp add: timeSinceLastUpdate_def)
  have c: "\<not> js_lt (timeSinceLastUpdate w InvalidDate) (timeTreshold_of arg)"
    by (simp add: n)
  have d: "snd (getLastAirtableModificationTime w (table_of a) (lastModifiedField a)) = Inr (Some InvalidDate)"
    by (simp add: l)
  have e: "exportAirtableDataToGitHub w a g arg =
           (AirtableQuery (table_of a) (freshness_query (lastModifiedField a))
              # fst (export_step w (table_of a) g),
            snd (export_step w (table_of a) g))"
    using c by (simp add: export_by_threshold [OF d])
  from export_step_prefix [of w "table_of a" g]
  obtain tr where "fst (export_step w (table_of a) g) =
      [ConsoleInfo OverThreshold, AirtableQuery (table_of a) select_everything] @ tr"
    by blast
  then have "fst (exportAirtableDataToGitHub w a g arg) =
              [AirtableQuery (table_of a) (freshness_query (lastModifiedField a)),
               ConsoleInfo OverThreshold,
               AirtableQuery (table_of a) select_everything] @ tr"
    by (simp add: e)
  then have p: "\<exists>tr. fst (exportAirtableDataToGitHub w a g arg) =
              [AirtableQuery (table_of a) (freshness_query (lastModifiedField a)),
               ConsoleInfo OverThreshold,
               AirtableQuery (table_of a) select_everything] @ tr"
    by blast
  from l n c e p show ?thesis by blast
qed

theorem unparsable_stamp_exports_witness:
  "Date_parse (example_world 1577837101000 example_env unparsable_records AB_records sha_answer)
       ''yesterday'' = None
   \<and> getLastAirtableModificationTime
        (example_world 1577837101000 example_env unparsable_records AB_records sha_answer)
        (table_of example_airtableConfig) ''Last Update'' =
       ([AirtableQuery (table_of example_airtableConfig) (freshness_query ''Last Update'')],
        Inr (Some InvalidDate))
   \<and> exportAirtableDataToGitHub
        (example_world 1577837101000 example_env unparsable_records AB_records sha_answer)
        example_airtableConfig example_githubConfig None =
     ([AirtableQuery (table_of example_airtableConfig) (freshness_query ''Last Update''),
       ConsoleInfo OverThreshold,
       AirtableQuery (table_of example_airtableConfig) select_everything,
       HttpGet ''https://api.github.com/repos/zoul/airtable-export/contents/data.json'',
       GitHubPut ''tokenG'' AB_request],
      Inr ())"
proof -
  let ?w = "example_world 1577837101000 example_env unparsable_records AB_records sha_answer"
  let ?r = "\<lparr>rec_id = ''rec1'', rec_fields = [(''Last Update'', JStr ''yesterday'')]\<rparr>"
  have f: "lastModifiedField example_airtableConfig = ''Last Update''"
    by (simp add: example_airtableConfig_def)
  have h1: "table_at_check ?w (table_of example_airtableConfig) = Inr unparsable_records"
    by (simp add: example_world_def)
  have h2: "airtable_select (store_rank ?w) (freshness_query (lastModifiedField example_airtableConfig))
              unparsable_records = ?r # []"
    using select_unparsable by (simp add: example_world_def f)
  have h3: "lookup (rec_fields ?r) (lastModifiedField example_airtableConfig) = Some (JStr ''yesterday'')"
    by (simp add: f)
  have h4: "Date_parse ?w ''yesterday'' = None"
    by (simp add: example_world_def example_parse_def)
  have h5: "table_at_export ?w (table_of example_airtableConfig) = Inr AB_records"
    by (simp add: example_world_def)
  have h6: "axios_get ?w (target_url example_githubConfig)
             = Inr (JObj [(''name'', JStr ''data.json''), (''sha'', JStr ''3b18e512'')])"
    by (simp add: example_world_def sha_answer_def)
  have h7: "get_property (JObj [(''name'', JStr ''data.json''), (''sha'', JStr ''3b18e512'')]) ''sha''
             = Inr (Some (JStr ''3b18e512''))"
    by simp
  have h8: "octokit_put ?w auth request = Inr ()" for auth request
    by (simp add: example_world_def)
  have c: "toBase64 (toJSON ?w (JArr (map (\<lambda>m. JObj (rec_fields m)) AB_records)))
            = ''WwogIHsKICAgICJBIjogMQogIH0sCiAgewogICAgIkIiOiAyCiAgfQpd''"
    by (rule example_content)
  have s: "export_step ?w (table_of example_airtableConfig) example_githubConfig =
     ([ConsoleInfo OverThreshold,
       AirtableQuery (table_of example_airtableConfig) select_everything,
       HttpGet ''https://api.github.com/repos/zoul/airtable-export/contents/data.json'',
       GitHubPut ''tokenG'' AB_request], Inr ())"
    unfolding export_step_success [OF h5 h6 h7] c h8
    by (simp add: AB_request_def example_githubConfig_def target_url_def)
  from unparsable_stamp_exports [OF h1 h2 h3 h4, where g = example_githubConfig and arg = None] h4
  show ?thesis
    by (simp add: s f)
qed

text \<open>
  Claim C10. \<^verbatim>\<open>getTargetFileSHA\<close> does not use the credential: for two destination
  configurations with the same user, repository and path it sends the same request, a
  GET of the URL built from these three with nothing else attached, and gives the same
  result.
\<close>

theorem hash_read_ignores_credential:
  assumes "user c1 = user c2" and "repo c1 = repo c2" and "path c1 = path c2"
  shows "getTargetFileSHA w c1 = getTargetFileSHA w c2
       \<and> fst (getTargetFileSHA w c1) =
           [HttpGet (''https://api.github.com/repos/'' @ user c1 @ ''/'' @ repo c1
                      @ ''/contents/'' @ path c1)]"
  using assms
  by (simp add: getTargetFileSHA_def target_url_def await_def Let_def split: sum.splits)

theorem hash_read_ignores_credential_witness:
  "getTargetFileSHA (example_world 1577837101000 example_env stamped_records AB_records sha_answer)
      (main_githubConfig ''tokenG'')
   = getTargetFileSHA (example_world 1577837101000 example_env stamped_records AB_records sha_answer)
      (main_githubConfig ''another token'')
   \<and> getTargetFileSHA (example_world 1577837101000 example_env stamped_records AB_records sha_answer)
      (main_githubConfig ''another token'')
   = ([HttpGet ''https://api.github.com/repos/zoul/airtable-export/contents/data.json''],
      Inr (Some (JStr ''3b18e512'')))"
proof -
  let ?w = "example_world 1577837101000 example_env stamped_records AB_records sha_answer"
  have u: "user (main_githubConfig ''tokenG'') = user (main_githubConfig ''another token'')"
    and r: "repo (main_githubConfig ''tokenG'') = repo (main_githubConfig ''another token'')"
    and p: "path (main_githubConfig ''tokenG'') = path (main_githubConfig ''another token'')"
    by (simp_all add: main_githubConfig_def)
  have v: "snd (getTargetFileSHA ?w (main_githubConfig ''tokenG'')) = Inr (Some (JStr ''3b18e512''))"
    by (simp add: getTargetFileSHA_def await_def Let_def example_world_def sha_answer_def)
  note i = hash_read_ignores_credential [OF u r p, of ?w]
  have e: "getTargetFileSHA ?w (main_githubConfig ''tokenG'')
            = getTargetFileSHA ?w (main_githubConfig ''another token'')"
    using i by (rule conjunct1)
  have t: "fst (getTargetFileSHA ?w (main_githubConfig ''tokenG'')) =
             [HttpGet ''https://api.github.com/repos/zoul/airtable-export/contents/data.json'']"
    using i [THEN conjunct2] by (simp add: main_githubConfig_def)
  from t v have "getTargetFileSHA ?w (main_githubConfig ''tokenG'') =
      ([HttpGet ''https://api.github.com/repos/zoul/airtable-export/contents/data.json''],
       Inr (Some (JStr ''3b18e512'')))"
    by (simp add: prod_eq_iff)
  with e show ?thesis by simp
qed

end
